theory Spec2Isabelle
  imports Complex_Main
begin

section \<open>JavaScript numbers\<close>

text \<open>
  The analysis core computes on JavaScript numbers. The model keeps the special values
  that decide the edge cases of the code (NaN, the two infinities and the negative zero)
  and takes every finite value as a real number: rounding is not modelled.
  \<open>Fin 0\<close> is the positive zero, \<open>NegZero\<close> the negative one.
\<close>

datatype jsnum = Fin real | NegZero | PosInf | NegInf | NaN

fun isNaN :: "jsnum \<Rightarrow> bool" where
  "isNaN NaN = True"
| "isNaN _ = False"

fun is_inf :: "jsnum \<Rightarrow> bool" where
  "is_inf PosInf = True"
| "is_inf NegInf = True"
| "is_inf _ = False"

fun is_zero :: "jsnum \<Rightarrow> bool" where
  "is_zero (Fin r) = (r = 0)"
| "is_zero NegZero = True"
| "is_zero _ = False"

fun sign_bit :: "jsnum \<Rightarrow> bool" where
  "sign_bit (Fin r) = (r < 0)"
| "sign_bit NegZero = True"
| "sign_bit NegInf = True"
| "sign_bit _ = False"

fun num_val :: "jsnum \<Rightarrow> real" where
  "num_val (Fin r) = r"
| "num_val _ = 0"

definition mk_zero :: "bool \<Rightarrow> jsnum" where
  "mk_zero s = (if s then NegZero else Fin 0)"

definition mk_inf :: "bool \<Rightarrow> jsnum" where
  "mk_inf s = (if s then NegInf else PosInf)"

definition mk_fin :: "bool \<Rightarrow> real \<Rightarrow> jsnum" where
  "mk_fin s r = (if r = 0 then mk_zero s else Fin r)"

text \<open>Unary minus: flips the sign, also of a zero.\<close>

fun js_neg :: "jsnum \<Rightarrow> jsnum" where
  "js_neg (Fin r) = (if r = 0 then NegZero else Fin (- r))"
| "js_neg NegZero = Fin 0"
| "js_neg PosInf = NegInf"
| "js_neg NegInf = PosInf"
| "js_neg NaN = NaN"

text \<open>\<open>x + y\<close>: opposite infinities give NaN; a zero sum is negative only for \<open>-0 + -0\<close>.\<close>

definition js_add :: "jsnum \<Rightarrow> jsnum \<Rightarrow> jsnum" where
  "js_add x y =
     (if isNaN x \<or> isNaN y then NaN
      else if is_inf x \<and> is_inf y then (if sign_bit x = sign_bit y then x else NaN)
      else if is_inf x then x
      else if is_inf y then y
      else if is_zero x \<and> is_zero y then mk_zero (sign_bit x \<and> sign_bit y)
      else Fin (num_val x + num_val y))"

definition js_sub :: "jsnum \<Rightarrow> jsnum \<Rightarrow> jsnum" where
  "js_sub x y = js_add x (js_neg y)"

text \<open>\<open>x * y\<close>: zero times infinity is NaN; the sign is the exclusive or of the signs.\<close>

definition js_mul :: "jsnum \<Rightarrow> jsnum \<Rightarrow> jsnum" where
  "js_mul x y =
     (if isNaN x \<or> isNaN y then NaN
      else if (is_inf x \<and> is_zero y) \<or> (is_zero x \<and> is_inf y) then NaN
      else if is_inf x \<or> is_inf y then mk_inf (sign_bit x \<noteq> sign_bit y)
      else mk_fin (sign_bit x \<noteq> sign_bit y) (num_val x * num_val y))"

text \<open>
  \<open>x / y\<close> never raises: \<open>0 / 0\<close> and \<open>Infinity / Infinity\<close> are NaN, any other
  division by a zero is an infinity.
\<close>

definition js_div :: "jsnum \<Rightarrow> jsnum \<Rightarrow> jsnum" where
  "js_div x y =
     (if isNaN x \<or> isNaN y then NaN
      else if is_inf x \<and> is_inf y then NaN
      else if is_zero x \<and> is_zero y then NaN
      else if is_inf x then mk_inf (sign_bit x \<noteq> sign_bit y)
      else if is_inf y then mk_zero (sign_bit x \<noteq> sign_bit y)
      else if is_zero y then mk_inf (sign_bit x \<noteq> sign_bit y)
      else mk_fin (sign_bit x \<noteq> sign_bit y) (num_val x / num_val y))"

text \<open>\<open>x % 1\<close>, the fractional part with the sign of \<open>x\<close>.\<close>

fun js_mod1 :: "jsnum \<Rightarrow> jsnum" where
  "js_mod1 (Fin r) = mk_fin (r < 0) (r - of_int (if r < 0 then \<lceil>r\<rceil> else \<lfloor>r\<rfloor>))"
| "js_mod1 NegZero = NegZero"
| "js_mod1 _ = NaN"

text \<open>Comparisons: every comparison with NaN is false, the two zeros are equal.\<close>

definition js_lt :: "jsnum \<Rightarrow> jsnum \<Rightarrow> bool" where
  "js_lt x y =
     (if isNaN x \<or> isNaN y then False
      else if x = PosInf \<or> y = NegInf then False
      else if x = NegInf \<or> y = PosInf then True
      else num_val x < num_val y)"

definition js_gt :: "jsnum \<Rightarrow> jsnum \<Rightarrow> bool" where
  "js_gt x y = js_lt y x"

definition js_eq :: "jsnum \<Rightarrow> jsnum \<Rightarrow> bool" where
  "js_eq x y =
     (if isNaN x \<or> isNaN y then False
      else if is_inf x \<or> is_inf y then x = y
      else num_val x = num_val y)"

definition js_ge :: "jsnum \<Rightarrow> jsnum \<Rightarrow> bool" where
  "js_ge x y = (js_gt x y \<or> js_eq x y)"

fun Math_abs :: "jsnum \<Rightarrow> jsnum" where
  "Math_abs (Fin r) = Fin \<bar>r\<bar>"
| "Math_abs NegZero = Fin 0"
| "Math_abs NegInf = PosInf"
| "Math_abs x = x"

fun Math_sqrt :: "jsnum \<Rightarrow> jsnum" where
  "Math_sqrt (Fin r) = (if r < 0 then NaN else Fin (sqrt r))"
| "Math_sqrt NegZero = NegZero"
| "Math_sqrt PosInf = PosInf"
| "Math_sqrt _ = NaN"

text \<open>\<open>Math.pow(x, k)\<close> for the literal exponents of the code (2, 3 and 4).\<close>

fun Math_pow :: "jsnum \<Rightarrow> nat \<Rightarrow> jsnum" where
  "Math_pow x 0 = Fin 1"
| "Math_pow (Fin r) k = Fin (r ^ k)"
| "Math_pow NegZero k = mk_zero (odd k)"
| "Math_pow PosInf k = PosInf"
| "Math_pow NegInf k = mk_inf (odd k)"
| "Math_pow NaN k = NaN"

fun Math_floor :: "jsnum \<Rightarrow> jsnum" where
  "Math_floor (Fin r) = Fin (of_int \<lfloor>r\<rfloor>)"
| "Math_floor x = x"

fun Math_ceil :: "jsnum \<Rightarrow> jsnum" where
  "Math_ceil (Fin r) = mk_fin (r < 0) (of_int \<lceil>r\<rceil>)"
| "Math_ceil x = x"

text \<open>\<open>Math.min\<close> and \<open>Math.max\<close> of two numbers; \<open>-0\<close> is below \<open>+0\<close>.\<close>

definition min2 :: "jsnum \<Rightarrow> jsnum \<Rightarrow> jsnum" where
  "min2 x y =
     (if isNaN x \<or> isNaN y then NaN
      else if js_lt y x then y
      else if js_lt x y then x
      else if sign_bit y then y else x)"

definition max2 :: "jsnum \<Rightarrow> jsnum \<Rightarrow> jsnum" where
  "max2 x y =
     (if isNaN x \<or> isNaN y then NaN
      else if js_lt x y then y
      else if js_lt y x then x
      else if sign_bit x then y else x)"

text \<open>\<open>Math.min(...data)\<close> and \<open>Math.max(...data)\<close>; of no argument they are the infinities.\<close>

definition Math_min :: "jsnum list \<Rightarrow> jsnum" where
  "Math_min data = foldl min2 PosInf data"

definition Math_max :: "jsnum list \<Rightarrow> jsnum" where
  "Math_max data = foldl max2 NegInf data"

text \<open>
  An array read \<open>xs[i]\<close>: \<open>None\<close> stands for \<open>undefined\<close>, the value of a read out of
  range or at an index that is not an integer.
\<close>

definition js_at :: "'a list \<Rightarrow> int \<Rightarrow> 'a option" where
  "js_at xs i = (if 0 \<le> i \<and> nat i < length xs then Some (xs ! nat i) else None)"

fun js_at_num :: "'a list \<Rightarrow> jsnum \<Rightarrow> 'a option" where
  "js_at_num xs (Fin r) = (if r = of_int \<lfloor>r\<rfloor> then js_at xs \<lfloor>r\<rfloor> else None)"
| "js_at_num xs NegZero = js_at xs 0"
| "js_at_num xs _ = None"

text \<open>A number or \<open>undefined\<close> used in arithmetic: \<open>undefined\<close> converts to NaN.\<close>

fun ToNumber :: "jsnum option \<Rightarrow> jsnum" where
  "ToNumber None = NaN"
| "ToNumber (Some x) = x"

section \<open>Statistical calculation methods (dataAnalyzer.js)\<close>

definition sum_data :: "jsnum list \<Rightarrow> jsnum" where
  "sum_data data = foldl js_add (Fin 0) data"

definition mean :: "jsnum list \<Rightarrow> jsnum" where
  "mean data = js_div (sum_data data) (Fin (real (length data)))"

text \<open>
  \<open>[...data].sort((a, b) => a - b)\<close>. The sort is stable and places \<open>a\<close> before \<open>b\<close>
  when \<open>a - b < 0\<close>; a comparator result that is NaN (two equal infinities) counts as 0.
  Every caller sorts a sample from which NaN has been filtered out, where the comparator
  is a total preorder and the result is the stable ascending sort, whatever algorithm
  the engine uses.
\<close>

fun sort_insert :: "jsnum \<Rightarrow> jsnum list \<Rightarrow> jsnum list" where
  "sort_insert x [] = [x]"
| "sort_insert x (y # ys) =
     (if js_gt (js_sub x y) (Fin 0) then y # sort_insert x ys else x # y # ys)"

definition sort_asc :: "jsnum list \<Rightarrow> jsnum list" where
  "sort_asc data = foldr sort_insert data []"

definition median :: "jsnum list \<Rightarrow> jsnum" where
  "median data =
     (let sorted = sort_asc data;
          mid = length sorted div 2
      in if length sorted mod 2 \<noteq> 0 then sorted ! mid
         else js_div (js_add (ToNumber (js_at sorted (int mid - 1)))
                             (ToNumber (js_at sorted (int mid)))) (Fin 2))"

definition variance :: "jsnum list \<Rightarrow> jsnum" where
  "variance data =
     (let m = mean data
      in js_div (sum_data (map (\<lambda>x. Math_pow (js_sub x m) 2) data))
                (Fin (real (length data) - 1)))"

definition standardDeviation :: "jsnum list \<Rightarrow> jsnum" where
  "standardDeviation data = Math_sqrt (variance data)"

definition skewness :: "jsnum list \<Rightarrow> jsnum" where
  "skewness data =
     (let m = mean data;
          stdDev = standardDeviation data;
          n = real (length data);
          skew = foldl (\<lambda>s x. js_add s (Math_pow (js_div (js_sub x m) stdDev) 3)) (Fin 0) data
      in js_mul (js_div (Fin n) (js_mul (Fin (n - 1)) (Fin (n - 2)))) skew)"

definition kurtosis :: "jsnum list \<Rightarrow> jsnum" where
  "kurtosis data =
     (let m = mean data;
          stdDev = standardDeviation data;
          n = real (length data);
          kurt = foldl (\<lambda>s x. js_add s (Math_pow (js_div (js_sub x m) stdDev) 4)) (Fin 0) data
      in js_sub
           (js_mul (js_div (js_mul (Fin n) (Fin (n + 1)))
                           (js_mul (js_mul (Fin (n - 1)) (Fin (n - 2))) (Fin (n - 3))))
                   kurt)
           (js_div (js_mul (Fin 3) (Math_pow (Fin (n - 1)) 2))
                   (js_mul (Fin (n - 2)) (Fin (n - 3)))))"

text \<open>
  \<open>percentile(sortedData, percentile)\<close>: linear interpolation between order statistics.
  The result is \<open>undefined\<close> (\<open>None\<close>) when the integral index is out of range.
\<close>

definition percentile :: "jsnum list \<Rightarrow> jsnum \<Rightarrow> jsnum option" where
  "percentile sortedData p =
     (let index = js_mul (js_div p (Fin 100)) (Fin (real (length sortedData) - 1))
      in if js_eq (js_mod1 index) (Fin 0) then js_at_num sortedData index
         else
           (let lower = ToNumber (js_at_num sortedData (Math_floor index));
                upper = ToNumber (js_at_num sortedData (Math_ceil index))
            in Some (js_add lower (js_mul (js_sub upper lower) (js_mod1 index)))))"

definition quartiles :: "jsnum list \<Rightarrow> jsnum option list" where
  "quartiles data =
     (let sorted = sort_asc data
      in [percentile sorted (Fin 25), percentile sorted (Fin 50), percentile sorted (Fin 75)])"

record percentile_map =
  p5 :: "jsnum option"
  p10 :: "jsnum option"
  p25 :: "jsnum option"
  p50 :: "jsnum option"
  p75 :: "jsnum option"
  p90 :: "jsnum option"
  p95 :: "jsnum option"

definition percentiles :: "jsnum list \<Rightarrow> percentile_map" where
  "percentiles data =
     (let sorted = sort_asc data
      in \<lparr>p5 = percentile sorted (Fin 5), p10 = percentile sorted (Fin 10),
          p25 = percentile sorted (Fin 25), p50 = percentile sorted (Fin 50),
          p75 = percentile sorted (Fin 75), p90 = percentile sorted (Fin 90),
          p95 = percentile sorted (Fin 95)\<rparr>)"


text \<open>
  \<open>mode(data)\<close> counts in an object keyed by the number's string, so the two zeros
  share a key, and reads the keys back with \<open>Object.keys(...).map(Number)\<close>: keys that
  are array indices (integers from 0 to 4294967294) come first in ascending order, the
  others follow in insertion order.
\<close>

fun key_number :: "jsnum \<Rightarrow> jsnum" where
  "key_number NegZero = Fin 0"
| "key_number x = x"

fun is_array_index :: "jsnum \<Rightarrow> bool" where
  "is_array_index (Fin r) = (r = of_int \<lfloor>r\<rfloor> \<and> 0 \<le> r \<and> r < 4294967295)"
| "is_array_index _ = False"

fun insertion_order :: "'a list \<Rightarrow> 'a list \<Rightarrow> 'a list" where
  "insertion_order seen [] = seen"
| "insertion_order seen (x # xs) =
     (if x \<in> set seen then insertion_order seen xs else insertion_order (seen @ [x]) xs)"

definition object_keys :: "jsnum list \<Rightarrow> jsnum list" where
  "object_keys ks =
     sort_key num_val (filter is_array_index ks) @ filter (\<lambda>k. \<not> is_array_index k) ks"

definition mode :: "jsnum list \<Rightarrow> jsnum list" where
  "mode data =
     (let ks = map key_number data;
          frequency = (\<lambda>k. count_list ks k);
          keys = object_keys (insertion_order [] ks);
          maxFreq = foldl max 0 (map frequency keys)
      in filter (\<lambda>k. frequency k = maxFreq) keys)"

text \<open>
  \<open>pearsonCorrelation(x, y)\<close>: the two samples are paired by position up to the shorter
  length; a denominator equal to zero gives 0.
\<close>

definition pearsonCorrelation :: "jsnum list \<Rightarrow> jsnum list \<Rightarrow> jsnum" where
  "pearsonCorrelation x y =
     (let n = min (length x) (length y)
      in if n < 2 then Fin 0
         else
           (let sumX = sum_data (take n x);
                sumY = sum_data (take n y);
                sumXY = sum_data (map (\<lambda>(xi, i). js_mul xi (ToNumber (js_at y (int i))))
                                      (zip (take n x) [0 ..< n]));
                sumX2 = sum_data (map (\<lambda>xi. js_mul xi xi) (take n x));
                sumY2 = sum_data (map (\<lambda>yi. js_mul yi yi) (take n y));
                numerator = js_sub (js_mul (Fin (real n)) sumXY) (js_mul sumX sumY);
                denominator =
                  Math_sqrt (js_mul (js_sub (js_mul (Fin (real n)) sumX2) (js_mul sumX sumX))
                                    (js_sub (js_mul (Fin (real n)) sumY2) (js_mul sumY sumY)))
            in if js_eq denominator (Fin 0) then Fin 0 else js_div numerator denominator))"

section \<open>The tabular dataset\<close>

text \<open>
  A cell of the selected range: a number, a text, \<open>null\<close>, \<open>undefined\<close> or a date (held
  as the ISO text that \<open>JSON.stringify\<close> prints for it). The analyser reads only the
  \<open>values\<close> grid of the selected data.
\<close>

datatype cell = CNumber jsnum | CString string | CNull | CUndefined | CDate string

record selectedData =
  address :: string
  values' :: "cell list list"
  rowCount :: nat
  columnCount :: nat

fun is_number :: "cell \<Rightarrow> bool" where
  "is_number (CNumber x) = True"
| "is_number _ = False"

fun is_string :: "cell \<Rightarrow> bool" where
  "is_string (CString s) = True"
| "is_string _ = False"

text \<open>\<open>row[colIndex]\<close> for every row after the first, kept when \<open>typeof val === 'number'\<close>.\<close>

fun number_of :: "cell option \<Rightarrow> jsnum list" where
  "number_of (Some (CNumber x)) = [x]"
| "number_of _ = []"

definition column_numbers :: "cell list list \<Rightarrow> nat \<Rightarrow> jsnum list" where
  "column_numbers vals colIndex =
     concat (map (\<lambda>row. number_of (js_at row (int colIndex))) (drop 1 vals))"

text \<open>The same with the second test of the filter, \<open>!isNaN(val)\<close>.\<close>

definition column_sample :: "cell list list \<Rightarrow> nat \<Rightarrow> jsnum list" where
  "column_sample vals colIndex = filter (\<lambda>x. \<not> isNaN x) (column_numbers vals colIndex)"

section \<open>Helper methods\<close>

definition detectHeaders :: "cell list list \<Rightarrow> bool" where
  "detectHeaders vals =
     (if length vals < 2 then False
      else list_all is_string (vals ! 0) \<and> list_ex is_number (vals ! 1))"

fun type_name :: "cell \<Rightarrow> string list" where
  "type_name (CNumber x) = [''number'']"
| "type_name (CString s) = [''text'']"
| "type_name (CDate d) = [''date'']"
| "type_name CNull = [''empty'']"
| "type_name CUndefined = [''empty'']"

definition analyzeDataTypes :: "cell list list \<Rightarrow> string list" where
  "analyzeDataTypes vals = insertion_order [] (concat (map type_name (concat vals)))"

text \<open>The type probe reads the second row only; with fewer than two rows there is none.\<close>

definition getNumericColumns :: "cell list list \<Rightarrow> nat list" where
  "getNumericColumns vals =
     (if length vals < 2 then []
      else (let sampleRow = vals ! 1
            in filter (\<lambda>index. is_number (sampleRow ! index)) [0 ..< length sampleRow]))"

definition getNumericColumnCount :: "cell list list \<Rightarrow> nat" where
  "getNumericColumnCount vals = length (getNumericColumns vals)"

definition getTextColumnCount :: "cell list list \<Rightarrow> nat" where
  "getTextColumnCount vals =
     (if length vals < 2 then 0 else length (filter is_string (vals ! 1)))"

fun is_missing :: "cell \<Rightarrow> bool" where
  "is_missing CNull = True"
| "is_missing CUndefined = True"
| "is_missing (CString s) = (s = [])"
| "is_missing _ = False"

definition countMissingValues :: "cell list list \<Rightarrow> nat" where
  "countMissingValues vals = length (filter is_missing (concat vals))"

text \<open>
  \<open>JSON.stringify(row)\<close> decides which rows are duplicates. Two rows print the same text
  exactly when their cells agree as JSON values: a number that is not finite, \<open>null\<close> and
  \<open>undefined\<close> all print as \<open>null\<close>, the negative zero prints as \<open>0\<close>, a date prints as
  its ISO text in quotes.
\<close>

datatype json = JNull | JNumber real | JString string

fun json_cell :: "cell \<Rightarrow> json" where
  "json_cell (CNumber (Fin r)) = JNumber r"
| "json_cell (CNumber NegZero) = JNumber 0"
| "json_cell (CNumber x) = JNull"
| "json_cell (CString s) = JString s"
| "json_cell (CDate d) = JString d"
| "json_cell CNull = JNull"
| "json_cell CUndefined = JNull"

definition findDuplicateRows :: "cell list list \<Rightarrow> nat" where
  "findDuplicateRows vals =
     (let rowStrings = map (map json_cell) vals
      in length vals - length (remdups rowStrings))"

definition assessConsistency :: "cell list list \<Rightarrow> jsnum" where
  "assessConsistency vals = Fin 0.85"

definition assessAccuracy :: "cell list list \<Rightarrow> jsnum" where
  "assessAccuracy vals = Fin 0.90"

definition getQualityGrade :: "jsnum \<Rightarrow> string" where
  "getQualityGrade score =
     (if js_ge score (Fin 0.9) then ''A''
      else if js_ge score (Fin 0.8) then ''B''
      else if js_ge score (Fin 0.7) then ''C''
      else if js_ge score (Fin 0.6) then ''D''
      else ''F'')"

definition getQualityRecommendations :: "jsnum \<Rightarrow> string list" where
  "getQualityRecommendations score =
     (if js_ge score (Fin 0.9) then [''Excellent data quality - maintain current standards'']
      else if js_ge score (Fin 0.8) then [''Good data quality - minor improvements needed'']
      else if js_ge score (Fin 0.7) then [''Moderate data quality - focus on key issues'']
      else if js_ge score (Fin 0.6)
        then [''Poor data quality - significant improvements required'']
      else [''Very poor data quality - major data cleansing needed''])"

definition findConsistencyIssues :: "cell list list \<Rightarrow> string list" where
  "findConsistencyIssues vals = [''Format inconsistencies'', ''Unit variations'']"

definition findAnomalies :: "cell list list \<Rightarrow> string list" where
  "findAnomalies vals = [''Unusual data patterns'', ''Potential data entry errors'']"

definition getCorrelationStrength :: "jsnum \<Rightarrow> string" where
  "getCorrelationStrength correlation =
     (let a = Math_abs correlation
      in if js_ge a (Fin 0.9) then ''very strong''
         else if js_ge a (Fin 0.7) then ''strong''
         else if js_ge a (Fin 0.5) then ''moderate''
         else if js_ge a (Fin 0.3) then ''weak''
         else ''very weak'')"

definition interpretCorrelation :: "jsnum \<Rightarrow> string" where
  "interpretCorrelation correlation =
     (if js_gt correlation (Fin 0.7) then ''Strong positive relationship''
      else if js_gt correlation (Fin 0.3) then ''Moderate positive relationship''
      else if js_gt correlation (Fin 0) then ''Weak positive relationship''
      else if js_eq correlation (Fin 0) then ''No linear relationship''
      else if js_gt correlation (Fin (- 0.3)) then ''Weak negative relationship''
      else if js_gt correlation (Fin (- 0.7)) then ''Moderate negative relationship''
      else ''Strong negative relationship'')"

definition assessOutlierImpact :: "jsnum list \<Rightarrow> jsnum list \<Rightarrow> string" where
  "assessOutlierImpact outlierValues allData =
     (let impactScore = js_div (Fin (real (length outlierValues))) (Fin (real (length allData)))
      in if js_gt impactScore (Fin 0.1) then ''high''
         else if js_gt impactScore (Fin 0.05) then ''medium''
         else ''low'')"


section \<open>Text of numbers\<close>

text \<open>The decimal text of a column index, as a template literal prints it.\<close>

function string_of_nat :: "nat \<Rightarrow> string" where
  "string_of_nat n =
     (if n < 10 then [char_of (48 + n)]
      else string_of_nat (n div 10) @ [char_of (48 + n mod 10)])"
  by pat_completeness auto
termination
  by (relation "measure id") auto

text \<open>
  \<open>x.toFixed(1)\<close>: the nearest number with one fraction digit, the larger one on a tie.
  The only caller prints a percentage between 0 and 100; the exponent form that
  JavaScript uses from \<open>1e21\<close> on is not modelled.
\<close>

definition fixed1 :: "real \<Rightarrow> string" where
  "fixed1 r =
     (let n = nat \<lfloor>r * 10 + 1 / 2\<rfloor>
      in string_of_nat (n div 10) @ ''.'' @ string_of_nat (n mod 10))"

fun toFixed1 :: "jsnum \<Rightarrow> string" where
  "toFixed1 (Fin r) = (if r < 0 then ''-'' @ fixed1 (- r) else fixed1 r)"
| "toFixed1 NegZero = ''0.0''"
| "toFixed1 PosInf = ''Infinity''"
| "toFixed1 NegInf = ''-Infinity''"
| "toFixed1 NaN = ''NaN''"

section \<open>Trend helpers\<close>

text \<open>\<open>xs.slice(start, end)\<close> and \<open>xs.slice(start)\<close>: a negative index counts from the end.\<close>

definition slice_index :: "nat \<Rightarrow> int \<Rightarrow> nat" where
  "slice_index n i = (if i < 0 then nat (max (int n + i) 0) else min (nat i) n)"

definition js_slice :: "'a list \<Rightarrow> int \<Rightarrow> int \<Rightarrow> 'a list" where
  "js_slice xs start end' =
     (let from = slice_index (length xs) start;
          to = slice_index (length xs) end'
      in take (to - from) (drop from xs))"

definition js_slice_from :: "'a list \<Rightarrow> int \<Rightarrow> 'a list" where
  "js_slice_from xs start = drop (slice_index (length xs) start) xs"

record linear_trend =
  slope :: jsnum
  intercept :: jsnum
  direction :: string
  trend_strength :: jsnum
  description :: string

definition calculateLinearTrend :: "jsnum list \<Rightarrow> linear_trend" where
  "calculateLinearTrend data =
     (let n = length data;
          x = map (\<lambda>i. Fin (real i)) [0 ..< n];
          y = data;
          sumX = sum_data x;
          sumY = sum_data y;
          sumXY = sum_data (map (\<lambda>(xi, i). js_mul xi (ToNumber (js_at y (int i))))
                                (zip x [0 ..< n]));
          sumX2 = sum_data (map (\<lambda>xi. js_mul xi xi) x);
          slope = js_div (js_sub (js_mul (Fin (real n)) sumXY) (js_mul sumX sumY))
                         (js_sub (js_mul (Fin (real n)) sumX2) (js_mul sumX sumX));
          intercept = js_div (js_sub sumY (js_mul slope sumX)) (Fin (real n));
          direction =
            (if js_gt slope (Fin 0.01) then ''increasing''
             else if js_lt slope (Fin (- 0.01)) then ''decreasing'' else ''stable'');
          strength = Math_abs slope
      in \<lparr>slope = slope, intercept = intercept, direction = direction,
          trend_strength = strength,
          description = direction @ '' trend with ''
            @ (if js_gt strength (Fin 0.1) then ''strong''
               else if js_gt strength (Fin 0.05) then ''moderate'' else ''weak'')
            @ '' strength''\<rparr>)"

definition calculateMovingAverage :: "jsnum list \<Rightarrow> nat \<Rightarrow> jsnum list" where
  "calculateMovingAverage data period =
     map (\<lambda>i. mean (js_slice data (i - int period + 1) (i + 1)))
         [int period - 1 .. int (length data) - 1]"

text \<open>
  \<open>calculateVolatility(data)\<close>: the standard deviation of the period-over-period
  returns; a period whose previous value is zero is skipped.
\<close>

definition period_returns :: "jsnum list \<Rightarrow> jsnum list" where
  "period_returns data =
     concat (map (\<lambda>i. if \<not> js_eq (data ! (i - 1)) (Fin 0)
                        then [js_div (js_sub (data ! i) (data ! (i - 1))) (data ! (i - 1))]
                        else [])
                 [1 ..< length data])"

definition calculateVolatility :: "jsnum list \<Rightarrow> jsnum" where
  "calculateVolatility data =
     (if length data < 2 then Fin 0 else standardDeviation (period_returns data))"

text \<open>\<open>calculateMomentum(data, period = 3)\<close>.\<close>

definition calculateMomentum :: "jsnum list \<Rightarrow> nat \<Rightarrow> jsnum" where
  "calculateMomentum data period =
     (if length data < period + 1 then Fin 0
      else
        (let recent = js_slice_from data (- int period);
             earlier = js_slice data (- int period * 2) (- int period)
         in js_sub (mean recent) (mean earlier)))"

record seasonal_component =
  seasonal_detected :: bool
  component :: "jsnum list"

definition extractSeasonalComponent :: "jsnum list \<Rightarrow> seasonal_component" where
  "extractSeasonalComponent data = \<lparr>seasonal_detected = False, component = []\<rparr>"


section \<open>The analyses of the dataset\<close>

record basic_stats =
  hasHeaders :: bool
  dataTypes :: "string list"
  numericColumns :: nat
  textColumns :: nat
  missingValues :: nat

definition getBasicStats :: "selectedData \<Rightarrow> basic_stats" where
  "getBasicStats d =
     (let vals = values' d
      in \<lparr>hasHeaders = detectHeaders vals,
          dataTypes = analyzeDataTypes vals,
          numericColumns = getNumericColumnCount vals,
          textColumns = getTextColumnCount vals,
          missingValues = countMissingValues vals\<rparr>)"

record column_stats =
  st_count :: nat
  st_sum :: jsnum
  st_mean :: jsnum
  st_median :: jsnum
  st_mode :: "jsnum list"
  st_min :: jsnum
  st_max :: jsnum
  st_range :: jsnum
  st_variance :: jsnum
  st_standardDeviation :: jsnum
  st_skewness :: jsnum
  st_kurtosis :: jsnum
  st_quartiles :: "jsnum option list"
  st_percentiles :: percentile_map

text \<open>The record that \<open>calculateStatistics\<close> stores for a sample that is not empty.\<close>

definition column_record :: "jsnum list \<Rightarrow> column_stats" where
  "column_record columnData =
     \<lparr>st_count = length columnData,
      st_sum = sum_data columnData,
      st_mean = mean columnData,
      st_median = median columnData,
      st_mode = mode columnData,
      st_min = Math_min columnData,
      st_max = Math_max columnData,
      st_range = js_sub (Math_max columnData) (Math_min columnData),
      st_variance = variance columnData,
      st_standardDeviation = standardDeviation columnData,
      st_skewness = skewness columnData,
      st_kurtosis = kurtosis columnData,
      st_quartiles = quartiles columnData,
      st_percentiles = percentiles columnData\<rparr>"

text \<open>
  The result objects are keyed by \<open>column_<index>\<close>; they are association lists in
  insertion order, the order in which \<open>Object.keys\<close> lists such keys. The numeric
  columns are distinct, so no key is written twice.
\<close>

definition calculateStatistics :: "selectedData \<Rightarrow> (string \<times> column_stats) list" where
  "calculateStatistics d =
     (let vals = values' d;
          numericCols = getNumericColumns vals
      in concat (map (\<lambda>colIndex.
           (let columnData = column_sample vals colIndex
            in if length columnData > 0
               then [(''column_'' @ string_of_nat colIndex, column_record columnData)]
               else [])) numericCols))"

record completeness_part =
  completeness_score :: jsnum
  completeness_missingValues :: nat
  totalCells :: nat

record uniqueness_part =
  uniqueness_score :: jsnum
  duplicateRows :: nat
  totalRows :: nat

record consistency_part =
  consistency_score :: jsnum
  issues :: "string list"

record accuracy_part =
  accuracy_score :: jsnum
  anomalies :: "string list"

record overall_part =
  overall_score :: jsnum
  grade :: string
  overall_recommendations :: "string list"

record data_quality =
  completeness :: completeness_part
  uniqueness :: uniqueness_part
  consistency :: consistency_part
  accuracy :: accuracy_part
  overall :: overall_part

text \<open>
  \<open>assessDataQuality\<close>. \<open>values[0]?.length || 0\<close> is the length of the first row, and 0
  when there is no row. The two ratios are plain divisions.
\<close>

definition assessDataQuality :: "selectedData \<Rightarrow> data_quality" where
  "assessDataQuality d =
     (let vals = values' d;
          total = length vals * (case vals of [] \<Rightarrow> 0 | row # rest \<Rightarrow> length row);
          missingCount = countMissingValues vals;
          dupRows = findDuplicateRows vals;
          completeness =
            js_sub (Fin 1) (js_div (Fin (real missingCount)) (Fin (real total)));
          uniqueness =
            js_sub (Fin 1) (js_div (Fin (real dupRows)) (Fin (real (length vals))));
          consistency = assessConsistency vals;
          accuracy = assessAccuracy vals;
          overallScore =
            js_div (js_add (js_add (js_add completeness uniqueness) consistency) accuracy)
                   (Fin 4)
      in \<lparr>completeness =
            \<lparr>completeness_score = completeness, completeness_missingValues = missingCount,
             totalCells = total\<rparr>,
          uniqueness =
            \<lparr>uniqueness_score = uniqueness, duplicateRows = dupRows,
             totalRows = length vals\<rparr>,
          consistency =
            \<lparr>consistency_score = consistency, issues = findConsistencyIssues vals\<rparr>,
          accuracy = \<lparr>accuracy_score = accuracy, anomalies = findAnomalies vals\<rparr>,
          overall =
            \<lparr>overall_score = overallScore, grade = getQualityGrade overallScore,
             overall_recommendations = getQualityRecommendations overallScore\<rparr>\<rparr>)"

text \<open>The pattern detectors are placeholders that return fixed objects.\<close>

record patterns_rec =
  seasonality :: "bool \<times> jsnum option \<times> jsnum"
  cycles :: "bool \<times> jsnum list"
  growth :: "string \<times> jsnum"
  distributions :: "jsnum \<times> jsnum \<times> jsnum"
  relationships :: "jsnum \<times> jsnum \<times> jsnum"

definition detectPatterns :: "selectedData \<Rightarrow> patterns_rec" where
  "detectPatterns d =
     \<lparr>seasonality = (False, None, Fin 0),
      cycles = (False, []),
      growth = (''linear'', Fin 0.5),
      distributions = (Fin 0.6, Fin 0.2, Fin 0.2),
      relationships = (Fin 0.7, Fin 0.2, Fin 0.1)\<rparr>"

record correlation_rec =
  coefficient :: jsnum
  strength :: string
  corr_interpretation :: string

definition calculateCorrelations :: "selectedData \<Rightarrow> (string \<times> correlation_rec) list" where
  "calculateCorrelations d =
     (let vals = values' d;
          numericCols = getNumericColumns vals
      in concat (map (\<lambda>i. concat (map (\<lambda>j.
           (let col1 = numericCols ! i;
                col2 = numericCols ! j;
                data1 = column_numbers vals col1;
                data2 = column_numbers vals col2
            in if length data1 > 1 \<and> length data2 > 1
               then (let correlation = pearsonCorrelation data1 data2
                     in [(''col_'' @ string_of_nat col1 @ ''_col_'' @ string_of_nat col2,
                          \<lparr>coefficient = correlation,
                           strength = getCorrelationStrength correlation,
                           corr_interpretation = interpretCorrelation correlation\<rparr>)])
               else []))
           [i + 1 ..< length numericCols])) [0 ..< length numericCols]))"

record outlier_group =
  group_count :: int
  group_values :: "jsnum list"

record outlier_rec =
  mild :: outlier_group
  extreme :: outlier_group
  bounds :: "jsnum \<times> jsnum"
  percentage :: jsnum
  impact :: string

text \<open>\<open>xs.includes(v)\<close> compares with SameValueZero: the two zeros are the same value.\<close>

definition array_includes :: "jsnum list \<Rightarrow> jsnum \<Rightarrow> bool" where
  "array_includes xs v = list_ex (\<lambda>x. x = v \<or> (is_zero x \<and> is_zero v)) xs"

text \<open>The record that \<open>detectOutliers\<close> stores for a sample of more than three values.\<close>

definition outlier_record :: "jsnum list \<Rightarrow> outlier_rec" where
  "outlier_record columnData =
     (let q1 = ToNumber (quartiles columnData ! 0);
          q3 = ToNumber (quartiles columnData ! 2);
          iqr = js_sub q3 q1;
          lowerBound = js_sub q1 (js_mul (Fin 1.5) iqr);
          upperBound = js_add q3 (js_mul (Fin 1.5) iqr);
          outlierValues =
            filter (\<lambda>v. js_lt v lowerBound \<or> js_gt v upperBound) columnData;
          extremeOutliers =
            filter (\<lambda>v. js_lt v (js_sub q1 (js_mul (Fin 3) iqr))
                        \<or> js_gt v (js_add q3 (js_mul (Fin 3) iqr))) columnData
      in \<lparr>mild =
            \<lparr>group_count = int (length outlierValues) - int (length extremeOutliers),
             group_values = filter (\<lambda>v. \<not> array_includes extremeOutliers v) outlierValues\<rparr>,
          extreme =
            \<lparr>group_count = int (length extremeOutliers), group_values = extremeOutliers\<rparr>,
          bounds = (lowerBound, upperBound),
          percentage =
            js_mul (js_div (Fin (real (length outlierValues)))
                           (Fin (real (length columnData)))) (Fin 100),
          impact = assessOutlierImpact outlierValues columnData\<rparr>)"

definition detectOutliers :: "selectedData \<Rightarrow> (string \<times> outlier_rec) list" where
  "detectOutliers d =
     (let vals = values' d;
          numericCols = getNumericColumns vals
      in concat (map (\<lambda>colIndex.
           (let columnData = column_sample vals colIndex
            in if length columnData > 3
               then [(''column_'' @ string_of_nat colIndex, outlier_record columnData)]
               else [])) numericCols))"

record trend_rec =
  linear :: linear_trend
  movingAverage :: "jsnum list"
  seasonal :: seasonal_component
  volatility :: jsnum
  momentum :: jsnum

definition analyzeTrends :: "selectedData \<Rightarrow> (string \<times> trend_rec) list" where
  "analyzeTrends d =
     (let vals = values' d;
          numericCols = getNumericColumns vals
      in concat (map (\<lambda>colIndex.
           (let columnData = column_sample vals colIndex
            in if length columnData > 2
               then [(''column_'' @ string_of_nat colIndex,
                      \<lparr>linear = calculateLinearTrend columnData,
                       movingAverage = calculateMovingAverage columnData 3,
                       seasonal = extractSeasonalComponent columnData,
                       volatility = calculateVolatility columnData,
                       momentum = calculateMomentum columnData 3\<rparr>)]
               else [])) numericCols))"


section \<open>The orchestrator\<close>

text \<open>
  The errors of the model: the \<open>RangeError\<close> that the engine throws when the call stack
  is exhausted, and the \<open>Error\<close> that the trend forecast throws.
\<close>

datatype error = RangeError_call_stack | Error_insufficient_data

record recommendation =
  category :: string
  priority :: string
  message :: string
  actions :: "string list"

record analysis =
  basicStats :: basic_stats
  statisticalSummary :: "(string \<times> column_stats) list"
  dataQuality :: data_quality
  patterns :: patterns_rec
  correlations :: "(string \<times> correlation_rec) list"
  outliers :: "(string \<times> outlier_rec) list"
  trends :: "(string \<times> trend_rec) list"
  recommendations :: "recommendation list"

text \<open>The recommendation list that \<open>generateRecommendations\<close> derives from an analysis.\<close>

definition derive_recommendations :: "analysis \<Rightarrow> recommendation list" where
  "derive_recommendations a =
     (if js_lt (overall_score (overall (dataQuality a))) (Fin 0.8)
      then [\<lparr>category = ''Data Quality'', priority = ''high'',
             message =
               ''Improve data quality by addressing missing values and inconsistencies'',
             actions = [''Use IFERROR() functions to handle missing data'',
                        ''Implement data validation rules'',
                        ''Create data cleansing formulas'']\<rparr>]
      else [])
     @ concat (map (\<lambda>(key, corr).
         if js_gt (Math_abs (coefficient corr)) (Fin 0.7)
         then [\<lparr>category = ''Statistical Analysis'', priority = ''medium'',
                message = ''Strong '' @ strength corr
                  @ '' correlation detected between variables'',
                actions = [''Create scatter plots to visualize relationship'',
                           ''Consider regression analysis'',
                           ''Investigate causal relationships'']\<rparr>]
         else []) (correlations a))
     @ concat (map (\<lambda>(key, outlier).
         if js_gt (percentage outlier) (Fin 5)
         then [\<lparr>category = ''Outlier Management'', priority = ''medium'',
                message = toFixed1 (percentage outlier) @ ''% outliers detected in '' @ key,
                actions = [''Investigate outlier causes'',
                           ''Consider robust statistical methods'',
                           ''Implement outlier detection formulas'']\<rparr>]
         else []) (outliers a))
     @ concat (map (\<lambda>(key, trend).
         if js_gt (Math_abs (slope (linear trend))) (Fin 0.1)
         then [\<lparr>category = ''Trend Analysis'', priority = ''high'',
                message = ''Significant '' @ direction (linear trend) @ '' trend in '' @ key,
                actions = [''Create trend line charts'',
                           ''Implement forecasting formulas'',
                           ''Monitor trend sustainability'']\<rparr>]
         else []) (trends a))"

text \<open>
  \<open>performDeepAnalysis\<close> builds its report with a call of \<open>generateRecommendations\<close>,
  and \<open>generateRecommendations\<close> starts with a call of \<open>performDeepAnalysis\<close> on the
  same data. The first argument is the number of call frames left on the stack: a call
  with none left throws the \<open>RangeError\<close>, which no function of the class catches. The
  seven analyses before the recursive call are total and have no effect.
\<close>

fun performDeepAnalysis :: "nat \<Rightarrow> selectedData \<Rightarrow> error + analysis"
  and generateRecommendations :: "nat \<Rightarrow> selectedData \<Rightarrow> error + recommendation list"
where
  "performDeepAnalysis 0 d = Inl RangeError_call_stack"
| "performDeepAnalysis (Suc frames) d =
     (case generateRecommendations frames d of
        Inl e \<Rightarrow> Inl e
      | Inr recs \<Rightarrow>
          Inr \<lparr>basicStats = getBasicStats d,
               statisticalSummary = calculateStatistics d,
               dataQuality = assessDataQuality d,
               patterns = detectPatterns d,
               correlations = calculateCorrelations d,
               outliers = detectOutliers d,
               trends = analyzeTrends d,
               recommendations = recs\<rparr>)"
| "generateRecommendations 0 d = Inl RangeError_call_stack"
| "generateRecommendations (Suc frames) d =
     (case performDeepAnalysis frames d of
        Inl e \<Rightarrow> Inl e
      | Inr a \<Rightarrow> Inr (derive_recommendations a))"

section \<open>The trend forecast (predictions route)\<close>

text \<open>
  The predictions route hands the selected data of the request to
  \<open>generateTrendPredictions\<close>, which takes \<open>data.values\<close> as the series \<open>y\<close>. An element of
  that array is a number when the caller sends a flat array of numbers, and a row of
  cells when it sends the grid of a selected range, as the task pane and the documented
  request do. The arithmetic of the function then runs on whatever the element is:
  \<open>a + b\<close> adds two numbers and joins the texts of its operands otherwise, and
  \<open>x * v\<close> and \<open>v - x\<close> convert \<open>v\<close> to a number first.
\<close>

datatype jsval = VNumber jsnum | VString string | VRow "cell list"

text \<open>
  The conversions between a number and its text, and the text of a date, are builtins
  of the engine and parameters of the model. One fact about them is part of the model:
  a text that contains a comma is no numeric literal and converts to NaN.
\<close>

record builtins =
  number_text :: "jsnum \<Rightarrow> string"
  text_number :: "string \<Rightarrow> jsnum"
  date_text :: "string \<Rightarrow> string"

definition StringToNumber :: "builtins \<Rightarrow> string \<Rightarrow> jsnum" where
  "StringToNumber b s = (if CHR '','' \<in> set s then NaN else text_number b s)"

text \<open>The text of a row is the texts of its cells joined by commas; an empty cell has no text.\<close>

fun cell_text :: "builtins \<Rightarrow> cell \<Rightarrow> string" where
  "cell_text b (CNumber x) = number_text b x"
| "cell_text b (CString s) = s"
| "cell_text b (CDate d) = date_text b d"
| "cell_text b CNull = []"
| "cell_text b CUndefined = []"

fun join_cells :: "builtins \<Rightarrow> cell list \<Rightarrow> string" where
  "join_cells b [] = []"
| "join_cells b [c] = cell_text b c"
| "join_cells b (c # cs) = cell_text b c @ '','' @ join_cells b cs"

fun to_text :: "builtins \<Rightarrow> jsval \<Rightarrow> string" where
  "to_text b (VNumber x) = number_text b x"
| "to_text b (VString s) = s"
| "to_text b (VRow r) = join_cells b r"

fun to_number :: "builtins \<Rightarrow> jsval \<Rightarrow> jsnum" where
  "to_number b (VNumber x) = x"
| "to_number b (VString s) = StringToNumber b s"
| "to_number b (VRow r) = StringToNumber b (join_cells b r)"

text \<open>\<open>y[i]\<close> converted to a number; \<open>undefined\<close> converts to NaN.\<close>

definition number_at :: "builtins \<Rightarrow> jsval list \<Rightarrow> int \<Rightarrow> jsnum" where
  "number_at b y i = (case js_at y i of None \<Rightarrow> NaN | Some v \<Rightarrow> to_number b v)"

fun js_plus :: "builtins \<Rightarrow> jsval \<Rightarrow> jsval \<Rightarrow> jsval" where
  "js_plus b (VNumber x) (VNumber y) = VNumber (js_add x y)"
| "js_plus b v w = VString (to_text b v @ to_text b w)"

definition calculateSlope :: "builtins \<Rightarrow> jsnum list \<Rightarrow> jsval list \<Rightarrow> jsnum" where
  "calculateSlope b x y =
     (let n = Fin (real (length x));
          sumX = foldl js_add (Fin 0) x;
          sumY = foldl (js_plus b) (VNumber (Fin 0)) y;
          sumXY = foldl (\<lambda>s (xi, i). js_add s (js_mul xi (number_at b y (int i))))
                        (Fin 0) (zip x [0 ..< length x]);
          sumX2 = foldl (\<lambda>s xi. js_add s (js_mul xi xi)) (Fin 0) x
      in js_div (js_sub (js_mul n sumXY) (js_mul sumX (to_number b sumY)))
                (js_sub (js_mul n sumX2) (js_mul sumX sumX)))"

definition calculateIntercept ::
  "builtins \<Rightarrow> jsnum list \<Rightarrow> jsval list \<Rightarrow> jsnum \<Rightarrow> jsnum" where
  "calculateIntercept b x y slope' =
     (let meanX = js_div (foldl js_add (Fin 0) x) (Fin (real (length x)));
          meanY = js_div (to_number b (foldl (js_plus b) (VNumber (Fin 0)) y))
                         (Fin (real (length y)))
      in js_sub meanY (js_mul slope' meanX))"

definition calculateMSE ::
  "builtins \<Rightarrow> jsnum list \<Rightarrow> jsval list \<Rightarrow> jsnum \<Rightarrow> jsnum \<Rightarrow> jsnum" where
  "calculateMSE b x y slope' intercept' =
     (let predictions = map (\<lambda>xi. js_add (js_mul slope' xi) intercept') x;
          squaredErrors =
            map (\<lambda>(yi, i). Math_pow (js_sub (to_number b yi)
                                              (ToNumber (js_at predictions (int i)))) 2)
                (zip y [0 ..< length y])
      in js_div (foldl js_add (Fin 0) squaredErrors) (Fin (real (length y))))"

record band =
  lower :: jsnum
  upper :: jsnum

record forecast_trend =
  ft_slope :: jsnum
  ft_intercept :: jsnum
  ft_direction :: string
  ft_strength :: jsnum

record trend_predictions =
  prediction_values :: "jsnum list"
  confidenceBand :: "band list"
  trend :: forecast_trend

text \<open>
  \<open>generateTrendPredictions(data, horizon, confidence)\<close>; the second argument of the
  model is \<open>data.values\<close>. The confidence argument is not read: the margin is always
  1.96 times the root of the MSE.
\<close>

definition generateTrendPredictions ::
  "builtins \<Rightarrow> jsval list \<Rightarrow> nat \<Rightarrow> jsnum \<Rightarrow> error + trend_predictions" where
  "generateTrendPredictions b vals horizon confidence =
     (let n = length vals
      in if n < 2 then Inl Error_insufficient_data
         else
           (let x = map (\<lambda>i. Fin (real (i + 1))) [0 ..< n];
                y = vals;
                slope' = calculateSlope b x y;
                intercept' = calculateIntercept b x y slope';
                prediction = (\<lambda>i. js_add (js_mul slope' (Fin (real (n + i)))) intercept');
                margin = js_mul (Fin 1.96) (Math_sqrt (calculateMSE b x y slope' intercept'))
            in Inr \<lparr>prediction_values = map prediction [1 ..< horizon + 1],
                    confidenceBand =
                      map (\<lambda>i. \<lparr>lower = js_sub (prediction i) margin,
                                  upper = js_add (prediction i) margin\<rparr>)
                          [1 ..< horizon + 1],
                    trend =
                      \<lparr>ft_slope = slope', ft_intercept = intercept',
                       ft_direction =
                         (if js_gt slope' (Fin 0) then ''increasing'' else ''decreasing''),
                       ft_strength = Math_abs slope'\<rparr>\<rparr>))"

text \<open>
  The route of the trend prediction: \<open>generateTrendPredictions(selectedData, timeHorizon,
  confidence)\<close> on the selected data of the request, whose values are the rows of the
  grid.
\<close>

definition predict_trend ::
  "builtins \<Rightarrow> selectedData \<Rightarrow> nat \<Rightarrow> jsnum \<Rightarrow> error + trend_predictions" where
  "predict_trend b d timeHorizon confidence =
     generateTrendPredictions b (map VRow (values' d)) timeHorizon confidence"

section \<open>Scenario generation (whatIfAnalysis.js)\<close>

text \<open>
  A column label is the text \<open>Column \<close> followed by \<open>String.fromCharCode(65 + index)\<close>.
  It is held as its list of UTF-16 code units, since the code unit of a far column is
  beyond a byte.
\<close>

definition column_label :: "nat \<Rightarrow> nat list" where
  "column_label index = map of_char ''Column '' @ [(65 + index) mod 65536]"

fun is_real_number :: "cell \<Rightarrow> bool" where
  "is_real_number (CNumber x) = (\<not> isNaN x)"
| "is_real_number _ = False"

definition findNumericColumns :: "selectedData \<Rightarrow> nat list list" where
  "findNumericColumns d =
     (if length (values' d) > 1
      then (let dataRow = values' d ! 1
            in map column_label
                 (filter (\<lambda>index. is_real_number (dataRow ! index)) [0 ..< length dataRow]))
      else [])"

record modification =
  column :: "nat list"
  change :: string
  formula :: string
  rationale :: string

record scenario =
  scenario_name :: string
  scenario_description :: string
  assumptions :: "string list"
  modifications :: "modification list"
  expectedOutcome :: string
  riskLevel :: string
  probability :: string

definition createOptimisticScenario :: "selectedData \<Rightarrow> scenario" where
  "createOptimisticScenario d =
     (let numericCols = findNumericColumns d
      in \<lparr>scenario_name = ''Optimistic Scenario'',
          scenario_description = ''Best-case projections with positive growth assumptions'',
          assumptions = [''15-25% growth in key metrics'',
                         ''Improved operational efficiency'',
                         ''Market expansion opportunities''],
          modifications =
            map (\<lambda>col. \<lparr>column = col, change = ''+20%'',
                          formula = ''=ORIGINAL_VALUE * 1.2'',
                          rationale = ''Optimistic growth projection''\<rparr>) numericCols,
          expectedOutcome = ''Significant improvement in overall performance'',
          riskLevel = ''Low'',
          probability = ''25%''\<rparr>)"

definition createPessimisticScenario :: "selectedData \<Rightarrow> scenario" where
  "createPessimisticScenario d =
     (let numericCols = findNumericColumns d
      in \<lparr>scenario_name = ''Pessimistic Scenario'',
          scenario_description = ''Worst-case projections with conservative assumptions'',
          assumptions = [''10-15% decline in key metrics'',
                         ''Economic downturn impact'',
                         ''Increased operational costs''],
          modifications =
            map (\<lambda>col. \<lparr>column = col, change = ''-15%'',
                          formula = ''=ORIGINAL_VALUE * 0.85'',
                          rationale = ''Conservative downturn projection''\<rparr>) numericCols,
          expectedOutcome = ''Challenging performance requiring mitigation strategies'',
          riskLevel = ''High'',
          probability = ''15%''\<rparr>)"

definition createRealisticScenario :: "selectedData \<Rightarrow> scenario" where
  "createRealisticScenario d =
     (let numericCols = findNumericColumns d
      in \<lparr>scenario_name = ''Realistic Scenario'',
          scenario_description = ''Most likely projections based on current trends'',
          assumptions = [''5-8% steady growth'',
                         ''Stable market conditions'',
                         ''Incremental improvements''],
          modifications =
            map (\<lambda>col. \<lparr>column = col, change = ''+6%'',
                          formula = ''=ORIGINAL_VALUE * 1.06'',
                          rationale = ''Realistic growth based on historical trends''\<rparr>)
                numericCols,
          expectedOutcome = ''Steady, sustainable growth'',
          riskLevel = ''Medium'',
          probability = ''60%''\<rparr>)"

record custom_modification =
  modification_type :: string
  modification_percentage :: nat
  target :: string

record custom_scenario =
  custom_name :: string
  custom_description :: string
  custom_modifications :: "custom_modification list"

definition createCustomScenarios :: "selectedData \<Rightarrow> custom_scenario list" where
  "createCustomScenarios d =
     [\<lparr>custom_name = ''Cost Reduction Focus'',
       custom_description = ''Scenario focusing on operational efficiency'',
       custom_modifications =
         [\<lparr>modification_type = ''cost_reduction'', modification_percentage = 12,
           target = ''operational_costs''\<rparr>,
          \<lparr>modification_type = ''efficiency_gain'', modification_percentage = 8,
           target = ''productivity''\<rparr>]\<rparr>,
      \<lparr>custom_name = ''Market Expansion'',
       custom_description = ''Aggressive growth through market expansion'',
       custom_modifications =
         [\<lparr>modification_type = ''revenue_increase'', modification_percentage = 30,
           target = ''sales''\<rparr>,
          \<lparr>modification_type = ''investment_increase'', modification_percentage = 25,
           target = ''marketing''\<rparr>]\<rparr>,
      \<lparr>custom_name = ''Technology Upgrade'',
       custom_description = ''Impact of digital transformation'',
       custom_modifications =
         [\<lparr>modification_type = ''efficiency_gain'', modification_percentage = 20,
           target = ''automation''\<rparr>,
          \<lparr>modification_type = ''cost_increase'', modification_percentage = 15,
           target = ''technology_investment''\<rparr>]\<rparr>]"

record scenarios =
  optimistic :: scenario
  pessimistic :: scenario
  realistic :: scenario
  custom :: "custom_scenario list"

definition generateScenarios :: "selectedData \<Rightarrow> scenarios" where
  "generateScenarios d =
     \<lparr>optimistic = createOptimisticScenario d,
      pessimistic = createPessimisticScenario d,
      realistic = createRealisticScenario d,
      custom = createCustomScenarios d\<rparr>"

subsection \<open>The numbers that the scenario texts denote\<close>

text \<open>
  The scenarios carry their factor and their weight as text: a formula
  \<open>=ORIGINAL_VALUE * 1.2\<close> and a probability \<open>25%\<close>. The functions below read such a
  text as the number it denotes: a decimal literal, a percentage (a hundredth of its
  integer) and the factor of a formula (the literal after \<open>=ORIGINAL_VALUE * \<close>).
\<close>

definition digit_value :: "char \<Rightarrow> nat option" where
  "digit_value c =
     (if 48 \<le> (of_char c :: nat) \<and> (of_char c :: nat) \<le> 57
      then Some (of_char c - 48) else None)"

fun digits_value :: "nat \<Rightarrow> string \<Rightarrow> nat option" where
  "digits_value acc [] = Some acc"
| "digits_value acc (c # cs) =
     (case digit_value c of None \<Rightarrow> None | Some v \<Rightarrow> digits_value (10 * acc + v) cs)"

definition natural_value :: "string \<Rightarrow> nat option" where
  "natural_value s = (if s = [] then None else digits_value 0 s)"

definition decimal_value :: "string \<Rightarrow> real option" where
  "decimal_value s =
     (let whole = takeWhile (\<lambda>c. c \<noteq> CHR ''.'') s;
          rest = dropWhile (\<lambda>c. c \<noteq> CHR ''.'') s
      in case natural_value whole of
           None \<Rightarrow> None
         | Some w \<Rightarrow>
             (if rest = [] then Some (real w)
              else (case natural_value (tl rest) of
                      None \<Rightarrow> None
                    | Some f \<Rightarrow> Some (real w + real f / 10 ^ length (tl rest)))))"

definition percent_value :: "string \<Rightarrow> real option" where
  "percent_value s =
     (if s = [] \<or> last s \<noteq> CHR ''%'' then None
      else (case natural_value (butlast s) of
              None \<Rightarrow> None
            | Some v \<Rightarrow> Some (real v / 100)))"

definition formula_factor :: "string \<Rightarrow> real option" where
  "formula_factor f =
     (if take 18 f = ''=ORIGINAL_VALUE * '' then decimal_value (drop 18 f) else None)"


section \<open>Sample selections\<close>

text \<open>
  The task pane sends the selected range with its address, its grid and the two counts
  of the grid.
\<close>

definition selection :: "string \<Rightarrow> cell list list \<Rightarrow> selectedData" where
  "selection a vals =
     \<lparr>address = a, values' = vals, rowCount = length vals,
      columnCount = (case vals of [] \<Rightarrow> 0 | row # rest \<Rightarrow> length row)\<rparr>"

definition num_cell :: "real \<Rightarrow> cell" where
  "num_cell r = CNumber (Fin r)"

text \<open>A header cell over one column of numbers.\<close>

definition column_selection :: "string \<Rightarrow> real list \<Rightarrow> selectedData" where
  "column_selection a rs = selection a ([CString ''Value''] # map (\<lambda>r. [num_cell r]) rs)"

definition empty_selection :: selectedData where
  "empty_selection = selection ''A1'' []"

definition single_row_selection :: selectedData where
  "single_row_selection = selection ''A1:C1'' [[num_cell 1, num_cell 2, num_cell 3]]"

text \<open>The sample of the outlier test of the specification.\<close>

definition outlier_sample :: "real list" where
  "outlier_sample = [1, 2, 3, 4, 5, 6, 7, 8, 9, 100]"

text \<open>The grid of the end-to-end scenario of the specification, and its sales column.\<close>

definition sales_selection :: selectedData where
  "sales_selection =
     selection ''A1:B5''
       [[CString ''Month'', CString ''Sales''],
        [num_cell 1, num_cell 100],
        [num_cell 2, num_cell 110],
        [num_cell 3, num_cell 120],
        [num_cell 4, num_cell 130]]"

definition sales :: "real list" where
  "sales = [100, 110, 120, 130]"

text \<open>The sales column sent as a flat array of numbers, and its four periods.\<close>

definition sales_series :: "jsval list" where
  "sales_series = map (\<lambda>r. VNumber (Fin r)) sales"

definition four_periods :: "jsnum list" where
  "four_periods = map (\<lambda>i. Fin (real (i + 1))) [0 ..< 4]"

text \<open>A baseline with a text column and a column of value 100.\<close>

definition baseline_selection :: selectedData where
  "baseline_selection =
     selection ''A1:B2''
       [[CString ''Region'', CString ''Sales''],
        [CString ''North'', num_cell 100]]"

section \<open>Finite numbers\<close>

text \<open>\<open>Number.isFinite\<close>: a number that is neither NaN nor an infinity.\<close>

fun is_finite :: "jsnum \<Rightarrow> bool" where
  "is_finite (Fin r) = True"
| "is_finite NegZero = True"
| "is_finite _ = False"

text \<open>A number that is NaN or carries no minus sign: a sum of fourth powers is one.\<close>

definition nonneg_or_NaN :: "jsnum \<Rightarrow> bool" where
  "nonneg_or_NaN v = (isNaN v \<or> \<not> sign_bit v)"

text \<open>The order of the sort: \<open>a\<close> may stand before \<open>b\<close> when \<open>b < a\<close> is false.\<close>

definition not_after :: "jsnum \<Rightarrow> jsnum \<Rightarrow> bool" where
  "not_after a b = (\<not> js_lt b a)"


section \<open>Arithmetic on given numbers\<close>

lemma js_add_Fin: "js_add (Fin a) (Fin b) = Fin (a + b)"
  by (simp add: js_add_def mk_zero_def)

lemma js_sub_Fin: "js_sub (Fin a) (Fin b) = Fin (a - b)"
  by (simp add: js_sub_def js_add_def mk_zero_def)

lemma js_mul_Fin:
  "js_mul (Fin a) (Fin b) =
     (if a * b = 0 \<and> ((a < 0) \<noteq> (b < 0)) then NegZero else Fin (a * b))"
  by (simp add: js_mul_def mk_fin_def mk_zero_def)

lemma js_div_Fin:
  "js_div (Fin a) (Fin b) =
     (if b = 0 then (if a = 0 then NaN else if a < 0 then NegInf else PosInf)
      else if a = 0 \<and> b < 0 then NegZero else Fin (a / b))"
  by (simp add: js_div_def mk_fin_def mk_zero_def mk_inf_def)

lemma js_add_NaN: "js_add NaN y = NaN" "js_add x NaN = NaN"
  by (simp_all add: js_add_def)

lemma js_sub_NaN: "js_sub NaN y = NaN" "js_sub x NaN = NaN"
  by (simp_all add: js_sub_def js_add_def)

lemma js_mul_NaN: "js_mul NaN y = NaN" "js_mul x NaN = NaN"
  by (simp_all add: js_mul_def)

lemma js_div_NaN: "js_div NaN y = NaN" "js_div x NaN = NaN"
  by (simp_all add: js_div_def)

lemma js_lt_Fin: "js_lt (Fin a) (Fin b) = (a < b)"
  by (simp add: js_lt_def)

lemma js_gt_Fin: "js_gt (Fin a) (Fin b) = (b < a)"
  by (simp add: js_gt_def js_lt_def)

lemma js_eq_Fin: "js_eq (Fin a) (Fin b) = (a = b)"
  by (simp add: js_eq_def)

lemma js_ge_Fin: "js_ge (Fin a) (Fin b) = (b \<le> a)"
  by (auto simp add: js_ge_def js_gt_def js_lt_def js_eq_def)

lemma js_cmp_NaN:
  "js_lt NaN y = False" "js_lt x NaN = False" "js_gt NaN y = False" "js_gt x NaN = False"
  "js_eq NaN y = False" "js_eq x NaN = False" "js_ge NaN y = False" "js_ge x NaN = False"
  by (simp_all add: js_ge_def js_gt_def js_lt_def js_eq_def)

lemma Math_pow_Fin: "Math_pow (Fin r) k = Fin (r ^ k)"
  by (cases k) simp_all

lemma Math_pow_NaN: "0 < k \<Longrightarrow> Math_pow NaN k = NaN"
  by (cases k) simp_all

lemmas js_eval = js_add_Fin js_sub_Fin js_mul_Fin js_div_Fin js_add_NaN js_sub_NaN js_mul_NaN
  js_div_NaN js_lt_Fin js_gt_Fin js_eq_Fin js_ge_Fin js_cmp_NaN Math_pow_Fin Math_pow_NaN

section \<open>A selection of one column of numbers\<close>

lemma column_selection_values:
  "values' (column_selection a rs) = [CString ''Value''] # map (\<lambda>r. [num_cell r]) rs"
  by (simp add: column_selection_def selection_def)

lemma column_numbers_column_selection:
  "column_numbers ([h] # map (\<lambda>r. [num_cell r]) rs) 0 = map Fin rs"
  by (induction rs) (simp_all add: column_numbers_def js_at_def num_cell_def)

lemma column_sample_column_selection:
  "column_sample (values' (column_selection a rs)) 0 = map Fin rs"
  by (simp add: column_sample_def column_selection_values column_numbers_column_selection
      filter_map comp_def)

lemma getNumericColumns_column_selection:
  "rs \<noteq> [] \<Longrightarrow> getNumericColumns (values' (column_selection a rs)) = [0]"
  by (cases rs) (simp_all add: getNumericColumns_def column_selection_values num_cell_def)

lemma string_of_nat_0: "string_of_nat 0 = ''0''"
  by code_simp

section \<open>The deep analysis never returns a report\<close>

text \<open>
  Claim C1 says that the deep analysis terminates and returns one report with the eight
  parts. The code does not: \<open>performDeepAnalysis\<close> and \<open>generateRecommendations\<close> call
  each other without a base case, so on every dataset and with every number of call
  frames available the call ends in the engine's \<open>RangeError\<close> and no report is built.
\<close>

theorem performDeepAnalysis_exhausts_stack:
  "performDeepAnalysis frames d = Inl RangeError_call_stack \<and>
   generateRecommendations frames d = Inl RangeError_call_stack"
  by (induction frames) simp_all

section \<open>Data quality of the empty dataset\<close>

text \<open>
  Claim C2 says that for the empty dataset the assessor returns completeness 1 and
  uniqueness 1. The code computes \<open>1 - 0 / 0\<close> for both: the total cell count and the row
  count are 0, no guard stands before either division, and both scores are NaN (the
  overall score with them, graded F). No exception is raised.
\<close>

theorem assessDataQuality_empty_is_NaN:
  "assessDataQuality empty_selection =
     \<lparr>completeness =
        \<lparr>completeness_score = NaN, completeness_missingValues = 0, totalCells = 0\<rparr>,
      uniqueness = \<lparr>uniqueness_score = NaN, duplicateRows = 0, totalRows = 0\<rparr>,
      consistency =
        \<lparr>consistency_score = Fin 0.85,
         issues = [''Format inconsistencies'', ''Unit variations'']\<rparr>,
      accuracy =
        \<lparr>accuracy_score = Fin 0.90,
         anomalies = [''Unusual data patterns'', ''Potential data entry errors'']\<rparr>,
      overall =
        \<lparr>overall_score = NaN, grade = ''F'',
         overall_recommendations =
           [''Very poor data quality - major data cleansing needed'']\<rparr>\<rparr>"
  by (simp add: assessDataQuality_def empty_selection_def selection_def Let_def
      countMissingValues_def findDuplicateRows_def js_eval
      getQualityGrade_def getQualityRecommendations_def
      assessConsistency_def assessAccuracy_def findConsistencyIssues_def findAnomalies_def)

section \<open>Fewer than two rows: no numeric column\<close>

text \<open>
  Claim C10: when the grid has fewer than two rows, numeric-column detection returns the
  empty list, and the statistics, the correlations, the outliers and the trends are each
  an empty mapping, whatever the cells of the one row are.
\<close>

theorem fewer_than_two_rows_no_numeric_column:
  "length (values' d) < 2 \<Longrightarrow>
     getNumericColumns (values' d) = [] \<and> calculateStatistics d = [] \<and>
     calculateCorrelations d = [] \<and> detectOutliers d = [] \<and> analyzeTrends d = []"
  by (simp add: getNumericColumns_def calculateStatistics_def calculateCorrelations_def
      detectOutliers_def analyzeTrends_def Let_def)

theorem fewer_than_two_rows_witness:
  "length (values' single_row_selection) < 2 \<and>
   list_all is_number (values' single_row_selection ! 0) \<and>
   getNumericColumns (values' single_row_selection) = [] \<and>
   calculateStatistics single_row_selection = [] \<and>
   calculateCorrelations single_row_selection = [] \<and>
   detectOutliers single_row_selection = [] \<and>
   analyzeTrends single_row_selection = []"
proof -
  have rows: "length (values' single_row_selection) < 2"
    by (simp add: single_row_selection_def selection_def)
  have cells: "list_all is_number (values' single_row_selection ! 0)"
    by (simp add: single_row_selection_def selection_def num_cell_def)
  from fewer_than_two_rows_no_numeric_column [OF rows] rows cells
  show ?thesis by blast
qed


section \<open>Momentum\<close>

lemma momentum_of_short_series: "calculateMomentum (map Fin [1, 2, 3, 4]) 3 = Fin 2"
  by (simp add: calculateMomentum_def js_slice_def js_slice_from_def slice_index_def
      mean_def sum_data_def js_eval)

text \<open>
  Claim C4 says that the momentum is 0 for every series shorter than \<open>2 * 3 + 1 = 7\<close>.
  The guard of the code is \<open>data.length < period + 1\<close>: the series 1, 2, 3, 4 has four
  values and its momentum is \<open>mean [2, 3, 4] - mean [1] = 2\<close>.
\<close>

theorem momentum_short_series_counterexample:
  "length (map Fin [1, 2, 3, 4]) < 2 * 3 + 1 \<and>
   calculateMomentum (map Fin [1, 2, 3, 4]) 3 \<noteq> Fin 0"
  using momentum_of_short_series by simp

text \<open>
  Claim C4 as amended: with the window 3, the momentum is 0 for a series of fewer than
  4 values; from 4 values on it is the mean of the last 3 values minus the mean of the
  values before them, at most 3 of them (\<open>data.slice(-6, -3)\<close>): the 3 values before
  the last 3 when the series has 6 values or more, and all the \<open>n - 3\<close> earlier values
  when it has 4 or 5.
\<close>

theorem momentum_window_3:
  "calculateMomentum data 3 =
     (if length data < 4 then Fin 0
      else js_sub (mean (drop (length data - 3) data))
                  (mean (take (min 3 (length data - 3)) (drop (length data - 6) data))))"
proof -
  have recent: "slice_index (length data) (- 3) = length data - 3"
    by (simp add: slice_index_def)
  have earlier: "slice_index (length data) (- 6) = length data - 6"
    by (simp add: slice_index_def)
  have window: "\<not> length data < 4 \<Longrightarrow>
      length data - (3 + (length data - 6)) = min 3 (length data - 3)"
    by arith
  show ?thesis
    by (auto simp add: calculateMomentum_def js_slice_def js_slice_from_def recent earlier
        window Let_def)
qed

theorem momentum_window_3_witness:
  "calculateMomentum (map Fin [1, 2, 3, 4, 5, 6, 7]) 3 = Fin 3 \<and>
   calculateMomentum (map Fin [1, 2, 3, 4, 5]) 3 = Fin (5 / 2) \<and>
   calculateMomentum (map Fin [1, 2, 3]) 3 = Fin 0"
  using momentum_window_3 [of "map Fin [1, 2, 3, 4, 5, 6, 7]"]
    momentum_window_3 [of "map Fin [1, 2, 3, 4, 5]"]
    momentum_window_3 [of "map Fin [1, 2, 3]"]
  by (simp add: mean_def sum_data_def js_eval)

section \<open>Volatility\<close>

lemma volatility_one_return: "calculateVolatility (map Fin [0, 5, 10]) = NaN"
  by (simp add: calculateVolatility_def period_returns_def upt_rec [of 1] upt_rec [of 2]
      js_eval standardDeviation_def variance_def mean_def sum_data_def)

lemma volatility_no_return: "calculateVolatility (map Fin [0, 0, 0]) = NegZero"
  by (simp add: calculateVolatility_def period_returns_def upt_rec [of 1] upt_rec [of 2]
      js_eval standardDeviation_def variance_def mean_def sum_data_def)

lemma pearsonCorrelation_zero_denominator:
  "pearsonCorrelation (map Fin [1, 1, 1]) (map Fin [1, 2, 3]) = Fin 0"
  by (simp add: pearsonCorrelation_def sum_data_def js_eval js_at_def upt_rec [of 0]
      upt_rec [of 1] upt_rec [of 2])

text \<open>
  Claim C5 says that a division by zero in the correlation or in the volatility gives
  the number 0 and never NaN. In \<open>calculateVolatility\<close> the guard on the length and the
  skipping of zero denominators leave the case of exactly one return open: for the
  column 0, 5, 10 the first period is skipped, the only return is \<open>(10 - 5) / 5\<close>, and
  its sample variance is \<open>0 / (1 - 1)\<close>, so the volatility is NaN; the trend analysis
  returns it for that column.
\<close>

theorem calculateVolatility_one_return_is_NaN:
  "calculateVolatility (map Fin [0, 5, 10]) = NaN \<and>
   map (\<lambda>(key, t). (key, volatility t)) (analyzeTrends (column_selection ''A1:A4'' [0, 5, 10]))
     = [(''column_0'', NaN)]"
  unfolding analyzeTrends_def Let_def
  using volatility_one_return
  by (simp add: getNumericColumns_column_selection column_sample_column_selection
      string_of_nat_0 del: string_of_nat.simps)

section \<open>Outliers of the sample 1 to 9 and 100\<close>

lemma sort_outlier_sample: "sort_asc (map Fin outlier_sample) = map Fin outlier_sample"
  by (simp add: outlier_sample_def sort_asc_def js_eval)

lemma quartiles_outlier_sample:
  "quartiles (map Fin outlier_sample) = [Some (Fin 3.25), Some (Fin 5.5), Some (Fin 7.75)]"
  unfolding quartiles_def sort_outlier_sample Let_def
  by (simp add: outlier_sample_def percentile_def js_eval mk_fin_def mk_zero_def js_at_def)

lemma outlier_record_outlier_sample:
  "outlier_record (map Fin outlier_sample) =
     \<lparr>mild = \<lparr>group_count = 0, group_values = []\<rparr>,
      extreme = \<lparr>group_count = 1, group_values = [Fin 100]\<rparr>,
      bounds = (Fin (- 3.5), Fin 14.5), percentage = Fin 10, impact = ''medium''\<rparr>"
  unfolding outlier_record_def quartiles_outlier_sample Let_def
  by (simp add: outlier_sample_def js_eval assessOutlierImpact_def array_includes_def)

text \<open>
  Claim C6: for the column 1, 2, ..., 9, 100 the quartiles by linear interpolation are
  3.25, 5.5 and 7.75, the fences are -3.5 and 14.5 (-10.25 and 21.25 at three times the
  interquartile range), the only extreme outlier is 100, and no value is a mild outlier:
  none of 1, ..., 9 is flagged.
\<close>

theorem detectOutliers_outlier_sample:
  "detectOutliers (column_selection ''A1:A11'' outlier_sample) =
     [(''column_0'',
       \<lparr>mild = \<lparr>group_count = 0, group_values = []\<rparr>,
        extreme = \<lparr>group_count = 1, group_values = [Fin 100]\<rparr>,
        bounds = (Fin (- 3.5), Fin 14.5), percentage = Fin 10, impact = ''medium''\<rparr>)] \<and>
   quartiles (map Fin outlier_sample) = [Some (Fin 3.25), Some (Fin 5.5), Some (Fin 7.75)]"
proof -
  have sample: "outlier_sample \<noteq> []" "3 < length outlier_sample"
    by (simp_all add: outlier_sample_def)
  have "detectOutliers (column_selection ''A1:A11'' outlier_sample) =
      [(''column_0'', outlier_record (map Fin outlier_sample))]"
    unfolding detectOutliers_def Let_def
    by (simp add: getNumericColumns_column_selection column_sample_column_selection sample
        string_of_nat_0 del: string_of_nat.simps)
  then show ?thesis
    by (simp add: outlier_record_outlier_sample quartiles_outlier_sample)
qed

section \<open>The three standard scenarios\<close>

lemma formula_factors:
  "formula_factor ''=ORIGINAL_VALUE * 1.2'' = Some 1.2"
  "formula_factor ''=ORIGINAL_VALUE * 0.85'' = Some 0.85"
  "formula_factor ''=ORIGINAL_VALUE * 1.06'' = Some 1.06"
  by (simp_all add: formula_factor_def decimal_value_def natural_value_def digit_value_def)

lemma probability_weights:
  "percent_value ''25%'' = Some 0.25"
  "percent_value ''15%'' = Some 0.15"
  "percent_value ''60%'' = Some 0.60"
  by (simp_all add: percent_value_def natural_value_def digit_value_def)

text \<open>
  Claim C7: for every baseline dataset the numeric columns are the positions of the
  second row that hold a number other than NaN, and each of the three scenarios has
  exactly one modification for each of them, in order: of the optimistic scenario with
  the change \<open>+20%\<close> and the formula \<open>=ORIGINAL_VALUE * 1.2\<close>, of the pessimistic one
  with \<open>-15%\<close> and the factor 0.85, of the realistic one with \<open>+6%\<close> and the factor 1.06.
  The scenarios are tagged with the probabilities \<open>25%\<close>, \<open>15%\<close> and \<open>60%\<close>, that is
  the weights 0.25, 0.15 and 0.60, which sum to 1. The witness is a baseline with a
  text column and a column of value 100: only the second column is modified, and the
  factors take 100 to 120, 85 and 106.
\<close>

theorem standard_scenarios_factors_and_weights:
  "(let numeric =
          (if 1 < length (values' d)
           then filter (\<lambda>index. is_real_number (values' d ! 1 ! index))
                  [0 ..< length (values' d ! 1)]
           else []);
        s = generateScenarios d
    in modifications (optimistic s) =
         map (\<lambda>index. \<lparr>column = column_label index, change = ''+20%'',
                        formula = ''=ORIGINAL_VALUE * 1.2'',
                        rationale = ''Optimistic growth projection''\<rparr>) numeric \<and>
       modifications (pessimistic s) =
         map (\<lambda>index. \<lparr>column = column_label index, change = ''-15%'',
                        formula = ''=ORIGINAL_VALUE * 0.85'',
                        rationale = ''Conservative downturn projection''\<rparr>) numeric \<and>
       modifications (realistic s) =
         map (\<lambda>index. \<lparr>column = column_label index, change = ''+6%'',
                        formula = ''=ORIGINAL_VALUE * 1.06'',
                        rationale = ''Realistic growth based on historical trends''\<rparr>) numeric \<and>
       formula_factor ''=ORIGINAL_VALUE * 1.2'' = Some 1.2 \<and>
       formula_factor ''=ORIGINAL_VALUE * 0.85'' = Some 0.85 \<and>
       formula_factor ''=ORIGINAL_VALUE * 1.06'' = Some 1.06 \<and>
       probability (optimistic s) = ''25%'' \<and> percent_value ''25%'' = Some 0.25 \<and>
       probability (pessimistic s) = ''15%'' \<and> percent_value ''15%'' = Some 0.15 \<and>
       probability (realistic s) = ''60%'' \<and> percent_value ''60%'' = Some 0.60 \<and>
       (0.25 :: real) + 0.15 + 0.60 = 1)"
  unfolding Let_def formula_factors probability_weights
  by (simp add: generateScenarios_def createOptimisticScenario_def
      createPessimisticScenario_def createRealisticScenario_def findNumericColumns_def
      Let_def comp_def)

lemma upt2: "[0 ..< 2] = [0, 1]"
  by code_simp

theorem standard_scenarios_factors_and_weights_witness:
  "modifications (optimistic (generateScenarios baseline_selection)) =
     [\<lparr>column = map of_char ''Column B'', change = ''+20%'',
       formula = ''=ORIGINAL_VALUE * 1.2'', rationale = ''Optimistic growth projection''\<rparr>] \<and>
   modifications (pessimistic (generateScenarios baseline_selection)) =
     [\<lparr>column = map of_char ''Column B'', change = ''-15%'',
       formula = ''=ORIGINAL_VALUE * 0.85'',
       rationale = ''Conservative downturn projection''\<rparr>] \<and>
   modifications (realistic (generateScenarios baseline_selection)) =
     [\<lparr>column = map of_char ''Column B'', change = ''+6%'',
       formula = ''=ORIGINAL_VALUE * 1.06'',
       rationale = ''Realistic growth based on historical trends''\<rparr>] \<and>
   map_option (\<lambda>f. 100 * f) (formula_factor ''=ORIGINAL_VALUE * 1.2'') = Some 120 \<and>
   map_option (\<lambda>f. 100 * f) (formula_factor ''=ORIGINAL_VALUE * 0.85'') = Some 85 \<and>
   map_option (\<lambda>f. 100 * f) (formula_factor ''=ORIGINAL_VALUE * 1.06'') = Some 106"
proof -
  have rows: "values' baseline_selection =
      [[CString ''Region'', CString ''Sales''], [CString ''North'', num_cell 100]]"
    by (simp add: baseline_selection_def selection_def)
  have numeric: "(if 1 < length (values' baseline_selection)
           then filter (\<lambda>index. is_real_number (values' baseline_selection ! 1 ! index))
                  [0 ..< length (values' baseline_selection ! 1)]
           else []) = [1]"
    unfolding rows by (simp add: upt2 num_cell_def)
  from standard_scenarios_factors_and_weights [of baseline_selection]
  show ?thesis
    unfolding Let_def numeric by (simp add: column_label_def)
qed

section \<open>The 50th percentile and the median\<close>

lemma comparator_positive:
  "\<not> isNaN x \<Longrightarrow> \<not> isNaN y \<Longrightarrow> js_gt (js_sub x y) (Fin 0) = js_lt y x"
  by (cases x; cases y)
     (auto simp add: js_gt_def js_lt_def js_sub_def js_add_def mk_zero_def)

lemma not_after_total: "\<not> not_after a b \<Longrightarrow> not_after b a"
  by (cases a; cases b) (auto simp add: not_after_def js_lt_def)

lemma not_after_trans:
  "\<not> isNaN b \<Longrightarrow> not_after a b \<Longrightarrow> not_after b c \<Longrightarrow> not_after a c"
  by (cases a; cases b; cases c) (auto simp add: not_after_def js_lt_def)

lemma length_sort_insert: "length (sort_insert x ys) = Suc (length ys)"
  by (induction ys) simp_all

lemma length_sort_asc: "length (sort_asc data) = length data"
  by (induction data) (simp_all add: sort_asc_def length_sort_insert)

lemma count_sort_insert: "count_list (sort_insert x ys) z = count_list (x # ys) z"
  by (induction ys) auto

lemma count_sort_asc: "count_list (sort_asc data) z = count_list data z"
  by (induction data) (simp_all add: sort_asc_def count_sort_insert)

lemma set_sort_insert: "set (sort_insert x ys) = insert x (set ys)"
  by (induction ys) auto

lemma set_sort_asc: "set (sort_asc data) = set data"
  by (induction data) (simp_all add: sort_asc_def set_sort_insert)

lemma sorted_sort_insert:
  assumes "\<not> isNaN x" and "list_all (\<lambda>y. \<not> isNaN y) ys" and "sorted_wrt not_after ys"
  shows "sorted_wrt not_after (sort_insert x ys)"
  using assms
proof (induction ys)
  case Nil
  then show ?case by simp
next
  case (Cons y ys)
  have cmp: "js_gt (js_sub x y) (Fin 0) = js_lt y x"
    using Cons.prems by (simp add: comparator_positive)
  show ?case
  proof (cases "js_lt y x")
    case True
    then have yx: "not_after y x"
      using not_after_total [of x y] by (auto simp add: not_after_def)
    from Cons have "sorted_wrt not_after (sort_insert x ys)" by simp
    with Cons.prems yx True show ?thesis
      by (auto simp add: cmp set_sort_insert)
  next
    case False
    then have xy: "not_after x y" by (simp add: not_after_def)
    have "not_after x z" if "z \<in> set ys" for z
      using Cons.prems that xy not_after_trans [of y x z] by auto
    with Cons.prems xy False show ?thesis
      by (auto simp add: cmp)
  qed
qed

lemma sorted_sort_asc:
  "list_all (\<lambda>y. \<not> isNaN y) data \<Longrightarrow> sorted_wrt not_after (sort_asc data)"
proof (induction data)
  case Nil
  then show ?case by (simp add: sort_asc_def)
next
  case (Cons x data)
  then have "sorted_wrt not_after (sort_asc data)" by simp
  moreover have "list_all (\<lambda>y. \<not> isNaN y) (sort_asc data)"
    using Cons.prems by (simp add: list_all_iff set_sort_asc)
  ultimately have "sorted_wrt not_after (sort_insert x (sort_asc data))"
    using Cons.prems by (intro sorted_sort_insert) simp_all
  then show ?case by (simp add: sort_asc_def)
qed


lemma percentile_50_odd:
  assumes "length s = 2 * m + 1"
  shows "percentile s (Fin 50) = Some (s ! m)"
proof -
  have index: "js_mul (js_div (Fin 50) (Fin 100)) (Fin (real (length s) - 1)) = Fin (real m)"
    using assms by (simp add: js_eval)
  have frac: "js_mod1 (Fin (real m)) = Fin 0"
    by (simp add: mk_fin_def mk_zero_def)
  have read: "js_at_num s (Fin (real m)) = Some (s ! m)"
    using assms by (simp add: js_at_def)
  show ?thesis
    unfolding percentile_def Let_def index frac read
    by (simp add: js_eval)
qed

lemma median_odd:
  assumes "length data = 2 * m + 1"
  shows "median data = sort_asc data ! m"
proof -
  have "(2 * m + 1) div 2 = m" "(2 * m + 1) mod 2 = 1" by simp_all
  then show ?thesis
    using assms by (simp add: median_def length_sort_asc Let_def)
qed

lemma percentile_50_even:
  assumes "length s = 2 * m" and "0 < m"
  shows "percentile s (Fin 50) =
     Some (js_add (s ! (m - 1)) (js_mul (js_sub (s ! m) (s ! (m - 1))) (Fin (1 / 2))))"
proof -
  have index: "js_mul (js_div (Fin 50) (Fin 100)) (Fin (real (length s) - 1))
      = Fin (real m - 1 / 2)"
    using assms by (simp add: js_eval field_simps)
  have fl: "\<lfloor>real m - 1 / 2\<rfloor> = int m - 1" by linarith
  have ce: "\<lceil>real m - 1 / 2\<rceil> = int m" by linarith
  have pos: "\<not> real m - 1 / 2 < 0" using assms by linarith
  have frac: "js_mod1 (Fin (real m - 1 / 2)) = Fin (1 / 2)"
    using pos by (simp add: mk_fin_def fl)
  have lower: "js_at_num s (Math_floor (Fin (real m - 1 / 2))) = Some (s ! (m - 1))"
    using assms by (simp add: fl js_at_def nat_diff_distrib)
  have upper: "js_at_num s (Math_ceil (Fin (real m - 1 / 2))) = Some (s ! m)"
    using assms pos by (simp add: ce mk_fin_def js_at_def)
  show ?thesis
    unfolding percentile_def Let_def index frac lower upper ToNumber.simps
    by (simp add: js_eval)
qed

lemma median_even:
  assumes "length data = 2 * m" and "0 < m"
  shows "median data = js_div (js_add (sort_asc data ! (m - 1)) (sort_asc data ! m)) (Fin 2)"
proof -
  have lo: "js_at (sort_asc data) (int m - 1) = Some (sort_asc data ! (m - 1))"
    using assms by (simp add: js_at_def nat_diff_distrib length_sort_asc)
  have hi: "js_at (sort_asc data) (int m) = Some (sort_asc data ! m)"
    using assms by (simp add: js_at_def length_sort_asc)
  show ?thesis
    using assms by (simp add: median_def length_sort_asc Let_def lo hi)
qed

lemma sort_two_infinities: "sort_asc [PosInf, PosInf] = [PosInf, PosInf]"
  by (simp add: sort_asc_def js_sub_def js_add_def js_gt_def js_lt_def)

text \<open>
  Claim C8 says that the 50th percentile equals the median for every non-empty numeric
  list. For the list of two values \<open>Infinity\<close> (a number that a request can carry, and
  that passes the filter of the samples) the median is \<open>(Infinity + Infinity) / 2 =
  Infinity\<close> and the percentile is \<open>Infinity + (Infinity - Infinity) * 0.5 = NaN\<close>.
\<close>

theorem percentile_50_not_median_counterexample:
  "median [PosInf, PosInf] = PosInf \<and>
   percentile (sort_asc [PosInf, PosInf]) (Fin 50) = Some NaN \<and>
   percentile (sort_asc [PosInf, PosInf]) (Fin 50) \<noteq> Some (median [PosInf, PosInf])"
proof -
  have m: "median [PosInf, PosInf] = PosInf"
    by (simp add: median_def sort_two_infinities Let_def js_at_def js_add_def js_div_def mk_inf_def)
  have p: "percentile (sort_asc [PosInf, PosInf]) (Fin 50) = Some NaN"
    using percentile_50_even [of "[PosInf, PosInf]" 1]
    by (simp add: sort_two_infinities js_sub_def js_add_def js_mul_NaN)
  show ?thesis by (simp add: m p)
qed

text \<open>
  Claim C8 as amended: for every non-empty sample without NaN the sort returns the
  sample in ascending order, and the 50th percentile of the sorted sample (also the
  second quartile and the entry \<open>p50\<close>) and the median read the same order statistics:
  for an odd length both are the middle one; for an even length, with \<open>before\<close> and
  \<open>middle\<close> the two middle ones, the median is \<open>(before + middle) / 2\<close> and the
  percentile is \<open>before + (middle - before) * 0.5\<close>. The two expressions are not the
  same computation, and the statement does not say that their values are equal.
\<close>

theorem percentile_50_and_median:
  assumes "data \<noteq> []" and "list_all (\<lambda>x. \<not> isNaN x) data"
  shows
    "(let sorted = sort_asc data;
          n = length data;
          before = sorted ! (n div 2 - 1);
          middle = sorted ! (n div 2)
      in length sorted = n \<and> sorted_wrt not_after sorted \<and>
         (\<forall>z. count_list sorted z = count_list data z) \<and>
         quartiles data ! 1 = percentile sorted (Fin 50) \<and>
         p50 (percentiles data) = percentile sorted (Fin 50) \<and>
         (if odd n
          then median data = middle \<and> percentile sorted (Fin 50) = Some middle
          else median data = js_div (js_add before middle) (Fin 2) \<and>
               percentile sorted (Fin 50)
                 = Some (js_add before (js_mul (js_sub middle before) (Fin (1 / 2))))))"
proof (cases "even (length data)")
  case True
  then obtain m where m: "length data = 2 * m" by (auto elim: evenE)
  with assms have pos: "0 < m" by (cases m) auto
  have len: "length (sort_asc data) = 2 * m" using m by (simp add: length_sort_asc)
  from percentile_50_even [OF len pos] median_even [OF m pos] True m
  show ?thesis
    by (simp add: Let_def length_sort_asc sorted_sort_asc [OF assms(2)] count_sort_asc
        quartiles_def percentiles_def)
next
  case False
  then obtain m where m: "length data = 2 * m + 1" by (auto elim: oddE)
  have len: "length (sort_asc data) = 2 * m + 1" using m by (simp add: length_sort_asc)
  from percentile_50_odd [OF len] median_odd [OF m] False m
  show ?thesis
    by (simp add: Let_def length_sort_asc sorted_sort_asc [OF assms(2)] count_sort_asc
        quartiles_def percentiles_def)
qed

theorem percentile_50_and_median_witness:
  "map Fin [3, 1, 2] \<noteq> [] \<and> list_all (\<lambda>x. \<not> isNaN x) (map Fin [3, 1, 2]) \<and>
   sort_asc (map Fin [3, 1, 2]) = map Fin [1, 2, 3] \<and>
   median (map Fin [3, 1, 2]) = Fin 2 \<and>
   percentile (sort_asc (map Fin [3, 1, 2])) (Fin 50) = Some (Fin 2) \<and>
   sort_asc (map Fin [4, 1, 3, 2]) = map Fin [1, 2, 3, 4] \<and>
   median (map Fin [4, 1, 3, 2]) = Fin (5 / 2) \<and>
   percentile (sort_asc (map Fin [4, 1, 3, 2])) (Fin 50) = Some (Fin (5 / 2))"
proof -
  have s3: "sort_asc (map Fin [3, 1, 2]) = map Fin [1, 2, 3]"
    by (simp add: sort_asc_def js_eval)
  have s4: "sort_asc (map Fin [4, 1, 3, 2]) = map Fin [1, 2, 3, 4]"
    by (simp add: sort_asc_def js_eval)
  have h3: "map Fin [3, 1, 2] \<noteq> []" "list_all (\<lambda>x. \<not> isNaN x) (map Fin [3, 1, 2])"
    by simp_all
  have h4: "map Fin [4, 1, 3, 2] \<noteq> []" "list_all (\<lambda>x. \<not> isNaN x) (map Fin [4, 1, 3, 2])"
    by simp_all
  from percentile_50_and_median [OF h3] percentile_50_and_median [OF h4]
  show ?thesis
    unfolding Let_def s3 s4 by (simp add: js_eval)
qed

section \<open>The trend forecast on the selected data\<close>

lemma join_cells_comma: "2 \<le> length r \<Longrightarrow> CHR '','' \<in> set (join_cells b r)"
  by (induction b r rule: join_cells.induct) auto

lemma StringToNumber_wide_row: "2 \<le> length r \<Longrightarrow> StringToNumber b (join_cells b r) = NaN"
  by (simp add: StringToNumber_def join_cells_comma)

lemma number_at_wide_rows:
  assumes "list_all (\<lambda>r. 2 \<le> length r) rows" and "i < length rows"
  shows "number_at b (map VRow rows) (int i) = NaN"
  using assms by (simp add: number_at_def js_at_def StringToNumber_wide_row list_all_length)

lemma foldl_add_map: "foldl (\<lambda>s p. js_add s (g p)) a ps = foldl js_add a (map g ps)"
  by (induction ps arbitrary: a) simp_all

lemma foldl_NaN: "foldl (\<lambda>s p. js_add s (g p)) NaN ps = NaN"
  by (induction ps) (simp_all add: js_add_NaN)

lemma foldl_terms_NaN:
  assumes "ps \<noteq> []" and "list_all (\<lambda>p. g p = NaN) ps"
  shows "foldl (\<lambda>s p. js_add s (g p)) a ps = NaN"
  using assms by (cases ps) (simp_all add: js_add_NaN foldl_NaN)

lemma sumXY_wide_rows:
  assumes "list_all (\<lambda>r. 2 \<le> length r) rows" and "rows \<noteq> []"
  shows "foldl (\<lambda>s (xi, i). js_add s (js_mul xi (number_at b (map VRow rows) (int i))))
           (Fin 0) (zip (map (\<lambda>i. Fin (real (i + 1))) [0 ..< length rows]) [0 ..< length rows])
         = NaN"
proof -
  let ?g = "\<lambda>(xi, i). js_mul xi (number_at b (map VRow rows) (int i))"
  let ?ps = "zip (map (\<lambda>i. Fin (real (i + 1))) [0 ..< length rows]) [0 ..< length rows]"
  have ne: "?ps \<noteq> []" using assms(2) by (cases rows) (simp_all add: upt_rec)
  have all: "list_all (\<lambda>p. ?g p = NaN) ?ps"
    using assms(1)
    by (auto simp add: list_all_iff in_set_zip number_at_wide_rows js_mul_NaN)
  have "foldl (\<lambda>s p. js_add s (?g p)) (Fin 0) ?ps = NaN"
    by (rule foldl_terms_NaN [OF ne all])
  then show ?thesis by (simp add: case_prod_unfold)
qed


lemma squares_wide_rows:
  assumes "list_all (\<lambda>r. 2 \<le> length r) rows" and "rows \<noteq> []"
  shows "foldl js_add (Fin 0)
           (map (\<lambda>(yi, i). Math_pow (js_sub (to_number b yi) (ToNumber (js_at preds (int i)))) 2)
                (zip (map VRow rows) [0 ..< length (map VRow rows)]))
         = NaN"
proof -
  let ?g = "\<lambda>(yi, i). Math_pow (js_sub (to_number b yi) (ToNumber (js_at preds (int i)))) 2"
  let ?ps = "zip (map VRow rows) [0 ..< length (map VRow rows)]"
  have ne: "?ps \<noteq> []" using assms(2) by (cases rows) (simp_all add: upt_rec)
  have all: "list_all (\<lambda>p. ?g p = NaN) ?ps"
    using assms(1)
    by (auto simp add: list_all_iff in_set_zip StringToNumber_wide_row js_sub_NaN Math_pow_NaN
        list_all_length)
  have "foldl (\<lambda>s p. js_add s (?g p)) (Fin 0) ?ps = NaN"
    by (rule foldl_terms_NaN [OF ne all])
  moreover have "foldl (\<lambda>s p. js_add s (?g p)) (Fin 0) ?ps = foldl js_add (Fin 0) (map ?g ?ps)"
    by (rule foldl_add_map)
  ultimately show ?thesis by simp
qed


lemma calculateSlope_wide_rows:
  assumes "list_all (\<lambda>r. 2 \<le> length r) rows" and "rows \<noteq> []"
  shows "calculateSlope b (map (\<lambda>i. Fin (real (i + 1))) [0 ..< length rows]) (map VRow rows) = NaN"
  unfolding calculateSlope_def Let_def length_map length_upt diff_zero
    sumXY_wide_rows [OF assms]
  by (simp add: js_eval)

lemma calculateIntercept_NaN: "calculateIntercept b x y NaN = NaN"
  by (simp add: calculateIntercept_def Let_def js_eval)

lemma calculateMSE_wide_rows:
  assumes "list_all (\<lambda>r. 2 \<le> length r) rows" and "rows \<noteq> []"
  shows "calculateMSE b x (map VRow rows) s t = NaN"
  unfolding calculateMSE_def Let_def squares_wide_rows [OF assms]
  by (simp add: js_eval)

lemma forecast_of_wide_grid:
  assumes "2 \<le> length rows" and "list_all (\<lambda>r. 2 \<le> length r) rows"
  shows "generateTrendPredictions b (map VRow rows) h c =
     Inr \<lparr>prediction_values = replicate h NaN,
          confidenceBand = replicate h \<lparr>lower = NaN, upper = NaN\<rparr>,
          trend = \<lparr>ft_slope = NaN, ft_intercept = NaN, ft_direction = ''decreasing'',
                   ft_strength = NaN\<rparr>\<rparr>"
proof -
  have ne: "rows \<noteq> []" using assms(1) by auto
  have long: "\<not> length rows < 2" using assms(1) by simp
  show ?thesis
    unfolding generateTrendPredictions_def Let_def length_map
      calculateSlope_wide_rows [OF assms(2) ne] calculateIntercept_NaN
      calculateMSE_wide_rows [OF assms(2) ne]
    using long by (simp add: js_eval map_replicate_const del: upt_Suc)
qed

text \<open>
  Claim C9 says that the trend forecast returns the points \<open>slope * (n + i) + intercept\<close>
  of the least-squares line of the observed series with the band of \<open>1.96 * sqrt MSE\<close>
  around them. The route hands the selected data to the forecast, which takes the rows
  of the grid for the observations: a row of two cells or more converts to NaN in
  every product and difference, so the slope, the intercept, the MSE, every point and
  every band are NaN. On the grid of the end-to-end scenario of the specification the
  forecast for period 5 is NaN, not 140, for every horizon and whatever the builtin
  conversions do on other texts.
\<close>

theorem forecast_of_sales_grid_is_NaN:
  "predict_trend b sales_selection h c =
     Inr \<lparr>prediction_values = replicate h NaN,
          confidenceBand = replicate h \<lparr>lower = NaN, upper = NaN\<rparr>,
          trend = \<lparr>ft_slope = NaN, ft_intercept = NaN, ft_direction = ''decreasing'',
                   ft_strength = NaN\<rparr>\<rparr>"
  unfolding predict_trend_def
  by (rule forecast_of_wide_grid) (simp_all add: sales_selection_def selection_def)

text \<open>On the sales column sent as a flat array of numbers the same code returns 140.\<close>

lemma upt4: "[0 ..< 4] = [0, 1, 2, 3]"
  by code_simp

lemma sales_series_eq: "sales_series = [VNumber (Fin 100), VNumber (Fin 110), VNumber (Fin 120), VNumber (Fin 130)]"
  by (simp add: sales_series_def sales_def)

lemma four_periods_eq: "four_periods = [Fin 1, Fin 2, Fin 3, Fin 4]"
  by (simp add: four_periods_def upt4)

lemma sales_series_slope: "calculateSlope b four_periods sales_series = Fin 10"
  unfolding four_periods_eq sales_series_eq
  by (simp add: calculateSlope_def Let_def upt4 number_at_def js_at_def js_eval)

lemma sales_series_intercept: "calculateIntercept b four_periods sales_series (Fin 10) = Fin 90"
  unfolding four_periods_eq sales_series_eq
  by (simp add: calculateIntercept_def Let_def js_eval)

lemma sales_series_mse: "calculateMSE b four_periods sales_series (Fin 10) (Fin 90) = Fin 0"
  unfolding four_periods_eq sales_series_eq
  by (simp add: calculateMSE_def Let_def upt4 js_at_def js_eval)

lemma forecast_of_flat_sales:
  "generateTrendPredictions b sales_series 1 c =
     Inr \<lparr>prediction_values = [Fin 140],
          confidenceBand = [\<lparr>lower = Fin 140, upper = Fin 140\<rparr>],
          trend = \<lparr>ft_slope = Fin 10, ft_intercept = Fin 90, ft_direction = ''increasing'',
                   ft_strength = Fin 10\<rparr>\<rparr>"
proof -
  have len: "length sales_series = 4" by (simp add: sales_series_eq)
  show ?thesis
    unfolding generateTrendPredictions_def Let_def
    apply (simp only: len)
    apply (fold four_periods_def)
    apply (simp add: sales_series_slope sales_series_intercept sales_series_mse js_eval)
    done
qed

section \<open>Skewness and kurtosis of degenerate samples\<close>

lemma js_mul_inf_not_finite: "is_inf c \<Longrightarrow> \<not> is_finite (js_mul c y)"
  by (cases c; cases y) (simp_all add: js_mul_def mk_inf_def)

lemma js_mul_not_finite: "\<not> is_finite y \<Longrightarrow> \<not> is_finite (js_mul x y)"
  by (cases x; cases y) (simp_all add: js_mul_def mk_inf_def)

lemma js_add_not_finite_right: "\<not> is_finite t \<Longrightarrow> \<not> is_finite (js_add a t)"
  by (cases a; cases t) (simp_all add: js_add_def)

lemma js_add_not_finite_left: "\<not> is_finite a \<Longrightarrow> \<not> is_finite (js_add a t)"
  by (cases a; cases t) (simp_all add: js_add_def)

lemma js_sub_not_finite_left: "\<not> is_finite a \<Longrightarrow> \<not> is_finite (js_sub a t)"
  by (cases a; cases t) (simp_all add: js_sub_def js_add_def)

lemma js_div_by_zero_not_finite: "is_zero s \<Longrightarrow> \<not> is_finite (js_div d s)"
  by (cases d; cases s) (simp_all add: js_div_def mk_inf_def)

lemma Math_pow_not_finite: "0 < k \<Longrightarrow> \<not> is_finite z \<Longrightarrow> \<not> is_finite (Math_pow z k)"
  by (cases z; cases k) (simp_all add: mk_inf_def)

lemma foldl_not_finite_start:
  "\<not> is_finite a \<Longrightarrow> \<not> is_finite (foldl (\<lambda>s x. js_add s (g x)) a xs)"
  by (induction xs arbitrary: a) (simp_all add: js_add_not_finite_left)

lemma foldl_not_finite_terms:
  assumes "xs \<noteq> []" and "list_all (\<lambda>x. \<not> is_finite (g x)) xs"
  shows "\<not> is_finite (foldl (\<lambda>s x. js_add s (g x)) a xs)"
  using assms
  by (cases xs) (simp_all add: foldl_not_finite_start js_add_not_finite_right)

lemma moments_not_finite:
  assumes "data \<noteq> []" and "is_zero s" and "0 < k"
  shows "\<not> is_finite (foldl (\<lambda>a x. js_add a (Math_pow (js_div (js_sub x m) s) k)) (Fin 0) data)"
  by (rule foldl_not_finite_terms [OF assms(1)])
     (simp add: list_all_iff Math_pow_not_finite [OF assms(3)] js_div_by_zero_not_finite [OF assms(2)])

lemma skewness_zero_deviation:
  assumes "data \<noteq> []" and "is_zero (standardDeviation data)"
  shows "\<not> is_finite (skewness data)"
  unfolding skewness_def Let_def
  by (rule js_mul_not_finite) (rule moments_not_finite [OF assms], simp)

lemma skewness_one_value: "\<not> is_finite (skewness [x])"
  unfolding skewness_def Let_def
  by (rule js_mul_inf_not_finite) (simp add: js_eval js_div_def mk_inf_def)

lemma skewness_two_values: "\<not> is_finite (skewness [x, y])"
  unfolding skewness_def Let_def
  by (rule js_mul_inf_not_finite) (simp add: js_eval)

lemma skewness_short_sample:
  assumes "data \<noteq> []" and "length data < 3"
  shows "\<not> is_finite (skewness data)"
proof -
  from assms obtain x where "data = [x] \<or> (\<exists>y. data = [x, y])"
    by (cases data; cases "tl data"; cases "tl (tl data)") auto
  then show ?thesis
    by (auto simp add: skewness_one_value skewness_two_values)
qed


lemma Math_pow_special:
  assumes "0 < k"
  shows "Math_pow NegZero k = mk_zero (odd k)" and "Math_pow PosInf k = PosInf"
    and "Math_pow NegInf k = mk_inf (odd k)"
  using assms by (cases k; simp)+

lemma fourth_power_nonneg: "nonneg_or_NaN (Math_pow z 4)"
proof (cases z)
  case (Fin r)
  have "0 \<le> r ^ 4" by (rule zero_le_even_power) simp
  then show ?thesis by (simp add: Fin Math_pow_Fin nonneg_or_NaN_def not_less)
qed (simp_all add: nonneg_or_NaN_def Math_pow_special Math_pow_NaN mk_zero_def mk_inf_def)

lemma js_add_nonneg: "nonneg_or_NaN a \<Longrightarrow> nonneg_or_NaN t \<Longrightarrow> nonneg_or_NaN (js_add a t)"
  by (cases a; cases t) (auto simp add: nonneg_or_NaN_def js_add_def mk_zero_def)

lemma foldl_nonneg:
  "nonneg_or_NaN a \<Longrightarrow> list_all (\<lambda>x. nonneg_or_NaN (g x)) xs \<Longrightarrow>
     nonneg_or_NaN (foldl (\<lambda>s x. js_add s (g x)) a xs)"
  by (induction xs arbitrary: a) (simp_all add: js_add_nonneg)

lemma fourth_moment_nonneg:
  "nonneg_or_NaN (foldl (\<lambda>a x. js_add a (Math_pow (js_div (js_sub x m) s) 4)) (Fin 0) data)"
  by (rule foldl_nonneg) (simp_all add: nonneg_or_NaN_def list_all_iff fourth_power_nonneg [unfolded nonneg_or_NaN_def])

lemma minus_infinity_cancels:
  "nonneg_or_NaN k \<Longrightarrow> js_sub (js_mul NegInf k) NegInf = NaN"
  by (cases k) (auto simp add: nonneg_or_NaN_def js_sub_def js_mul_def js_add_def mk_inf_def)

lemma plus_infinity_cancels:
  "nonneg_or_NaN k \<Longrightarrow> js_sub (js_mul PosInf k) PosInf = NaN"
  by (cases k) (auto simp add: nonneg_or_NaN_def js_sub_def js_mul_def js_add_def mk_inf_def)

lemma standardDeviation_one_value: "standardDeviation [x] = NaN"
  by (cases x)
     (simp_all add: standardDeviation_def variance_def mean_def sum_data_def Let_def
        js_add_def js_sub_def js_div_def mk_fin_def mk_zero_def mk_inf_def eval_nat_numeral)

lemma kurtosis_one_value: "kurtosis [x] = NaN"
  unfolding kurtosis_def Let_def standardDeviation_one_value
  by (simp add: js_eval eval_nat_numeral)

lemma kurtosis_two_values: "kurtosis [x, y] = NaN"
proof -
  have c1: "js_div (js_mul (Fin (real (length [x, y]))) (Fin (real (length [x, y]) + 1)))
       (js_mul (js_mul (Fin (real (length [x, y]) - 1)) (Fin (real (length [x, y]) - 2)))
          (Fin (real (length [x, y]) - 3))) = NegInf"
    by (simp add: js_eval js_mul_def js_div_def mk_fin_def mk_zero_def mk_inf_def)
  have c2: "js_div (js_mul (Fin 3) (Math_pow (Fin (real (length [x, y]) - 1)) 2))
       (js_mul (Fin (real (length [x, y]) - 2)) (Fin (real (length [x, y]) - 3))) = NegInf"
    by (simp add: js_eval js_div_def mk_inf_def)
  show ?thesis
    unfolding kurtosis_def Let_def c1 c2
    by (rule minus_infinity_cancels) (rule fourth_moment_nonneg)
qed

lemma kurtosis_three_values: "kurtosis [x, y, z] = NaN"
proof -
  have c1: "js_div (js_mul (Fin (real (length [x, y, z]))) (Fin (real (length [x, y, z]) + 1)))
       (js_mul (js_mul (Fin (real (length [x, y, z]) - 1)) (Fin (real (length [x, y, z]) - 2)))
          (Fin (real (length [x, y, z]) - 3))) = PosInf"
    by (simp add: js_eval)
  have c2: "js_div (js_mul (Fin 3) (Math_pow (Fin (real (length [x, y, z]) - 1)) 2))
       (js_mul (Fin (real (length [x, y, z]) - 2)) (Fin (real (length [x, y, z]) - 3))) = PosInf"
    by (simp add: js_eval)
  show ?thesis
    unfolding kurtosis_def Let_def c1 c2
    by (rule plus_infinity_cancels) (rule fourth_moment_nonneg)
qed

lemma kurtosis_short_sample:
  assumes "data \<noteq> []" and "length data < 4"
  shows "kurtosis data = NaN"
proof -
  from assms obtain x where
    "data = [x] \<or> (\<exists>y. data = [x, y]) \<or> (\<exists>y z. data = [x, y, z])"
    by (cases data; cases "tl data"; cases "tl (tl data)"; cases "tl (tl (tl data))") auto
  then show ?thesis
    by (auto simp add: kurtosis_one_value kurtosis_two_values kurtosis_three_values)
qed

lemma kurtosis_zero_deviation:
  assumes "data \<noteq> []" and "is_zero (standardDeviation data)"
  shows "\<not> is_finite (kurtosis data)"
  unfolding kurtosis_def Let_def
  by (rule js_sub_not_finite_left, rule js_mul_not_finite)
     (rule moments_not_finite [OF assms], simp)

subsection \<open>The records of the descriptive statistics\<close>

lemma calculateStatistics_record:
  assumes "(key, r) \<in> set (calculateStatistics d)"
  shows "\<exists>columnData. columnData \<noteq> [] \<and> r = column_record columnData"
proof -
  from assms have "\<exists>c. (key, r) \<in> set
      (if 0 < length (column_sample (values' d) c)
       then [(''column_'' @ string_of_nat c, column_record (column_sample (values' d) c))]
       else [])"
    unfolding calculateStatistics_def Let_def
    by (simp only: set_concat set_map) blast
  then obtain c where c: "(key, r) \<in> set
      (if 0 < length (column_sample (values' d) c)
       then [(''column_'' @ string_of_nat c, column_record (column_sample (values' d) c))]
       else [])"
    by (rule exE)
  show ?thesis
  proof (cases "0 < length (column_sample (values' d) c)")
    case True
    with c have "r = column_record (column_sample (values' d) c)"
      by (simp del: string_of_nat.simps)
    moreover from True have "column_sample (values' d) c \<noteq> []" by auto
    ultimately show ?thesis by (intro exI conjI)
  next
    case False
    with c show ?thesis by simp
  qed
qed

lemma column_record_fields:
  "st_count (column_record columnData) = length columnData"
  "st_standardDeviation (column_record columnData) = standardDeviation columnData"
  "st_skewness (column_record columnData) = skewness columnData"
  "st_kurtosis (column_record columnData) = kurtosis columnData"
  by (simp_all add: column_record_def)

lemma constant_deviation: "standardDeviation (map Fin [5, 5, 5]) = Fin 0"
  by (simp add: standardDeviation_def variance_def mean_def sum_data_def js_eval)

lemma constant_skewness: "skewness (map Fin [5, 5, 5]) = NaN"
proof -
  have m: "mean (map Fin [5, 5, 5]) = Fin 5"
    by (simp add: mean_def sum_data_def js_eval)
  show ?thesis
    unfolding skewness_def Let_def constant_deviation m
    by (simp add: js_eval)
qed

lemma constant_statistics:
  "calculateStatistics (column_selection ''A1:A4'' [5, 5, 5]) =
     [(''column_0'', column_record (map Fin [5, 5, 5]))]"
  unfolding calculateStatistics_def Let_def
  by (simp add: getNumericColumns_column_selection column_sample_column_selection
      string_of_nat_0 del: string_of_nat.simps)

text \<open>
  Claim C3 says that the skewness and the kurtosis fields are undefined (not computed)
  when the standard deviation is zero or the sample is shorter than 3 (skewness) or 4
  (kurtosis) values. \<open>calculateStatistics\<close> has no such guard: it evaluates
  \<open>this.skewness(columnData)\<close> and \<open>this.kurtosis(columnData)\<close> for every column with
  at least one number and stores the numbers they return. For the column 5, 5, 5 (three
  values, standard deviation 0) both fields are computed and hold the number
  \<open>NaN\<close>: each term of the third moment is \<open>Math.pow(0 / 0, 3)\<close>, and the kurtosis
  multiplies by \<open>12 / 0\<close>.
\<close>

theorem skewness_is_computed_counterexample:
  "map (\<lambda>(key, r). (key, st_count r, st_standardDeviation r, st_skewness r, st_kurtosis r))
       (calculateStatistics (column_selection ''A1:A4'' [5, 5, 5]))
     = [(''column_0'', 3, Fin 0, NaN, NaN)]"
  unfolding constant_statistics
  using constant_deviation constant_skewness kurtosis_three_values [of "Fin 5" "Fin 5" "Fin 5"]
  by (simp add: column_record_fields)

text \<open>
  Claim C3 as amended: for every column record of the descriptive statistics, the
  skewness field is always computed and is not a finite number (it is \<open>NaN\<close>,
  \<open>Infinity\<close> or \<open>-Infinity\<close>) whenever the standard deviation of the sample is zero
  or the sample has fewer than 3 values; the kurtosis field is always computed, is
  \<open>NaN\<close> whenever the sample has fewer than 4 values, and is not a finite number
  whenever the standard deviation is zero.
\<close>

theorem skewness_and_kurtosis_not_finite:
  assumes "(key, r) \<in> set (calculateStatistics d)"
  shows "(st_count r < 3 \<or> is_zero (st_standardDeviation r) \<longrightarrow> \<not> is_finite (st_skewness r)) \<and>
         (st_count r < 4 \<longrightarrow> st_kurtosis r = NaN) \<and>
         (is_zero (st_standardDeviation r) \<longrightarrow> \<not> is_finite (st_kurtosis r))"
proof -
  from calculateStatistics_record [OF assms] obtain columnData
    where sample: "columnData \<noteq> []" and r: "r = column_record columnData"
    by blast
  show ?thesis
    unfolding r column_record_fields
    using skewness_short_sample [OF sample] skewness_zero_deviation [OF sample]
      kurtosis_short_sample [OF sample] kurtosis_zero_deviation [OF sample]
    by blast
qed

text \<open>
  The record of the column 5, 5, 5 is in the statistics of its selection, has
  3 values and standard deviation 0; its skewness is not finite and its kurtosis is
  \<open>NaN\<close>.
\<close>

theorem skewness_and_kurtosis_not_finite_witness:
  "(''column_0'', column_record (map Fin [5, 5, 5]))
     \<in> set (calculateStatistics (column_selection ''A1:A4'' [5, 5, 5])) \<and>
   st_count (column_record (map Fin [5, 5, 5])) = 3 \<and>
   is_zero (st_standardDeviation (column_record (map Fin [5, 5, 5]))) \<and>
   \<not> is_finite (st_skewness (column_record (map Fin [5, 5, 5]))) \<and>
   st_kurtosis (column_record (map Fin [5, 5, 5])) = NaN"
proof -
  have member: "(''column_0'', column_record (map Fin [5, 5, 5]))
      \<in> set (calculateStatistics (column_selection ''A1:A4'' [5, 5, 5]))"
    unfolding constant_statistics by simp
  have count: "st_count (column_record (map Fin [5, 5, 5])) = 3"
    by (simp add: column_record_fields)
  have zero: "is_zero (st_standardDeviation (column_record (map Fin [5, 5, 5])))"
    using constant_deviation by (simp add: column_record_fields)
  note properties = skewness_and_kurtosis_not_finite [OF member]
  from properties zero
  have skew: "\<not> is_finite (st_skewness (column_record (map Fin [5, 5, 5])))"
    by blast
  from properties count
  have kurt: "st_kurtosis (column_record (map Fin [5, 5, 5])) = NaN"
    by simp
  from member count zero skew kurt show ?thesis by blast
qed

end
